theory Spec2Isabelle
  imports Main "HOL-Library.Word"
begin

unbundle bit_operations_syntax

section \<open>Values (value.h)\<close>

text \<open>
  \<^verbatim>\<open>typedef enum { VAL_BOOL, VAL_NIL, VAL_NUMBER } ValueType;\<close>
\<close>

datatype ValueType = VAL_BOOL | VAL_NIL | VAL_NUMBER

text \<open>
  The anonymous union \<^verbatim>\<open>as\<close> of a Value has two members, \<^verbatim>\<open>bool boolean\<close> and
  \<^verbatim>\<open>double number\<close>. A union holds the member that was written last, so it is the sum of
  its members. The type \<open>'d\<close> stands for C's \<^verbatim>\<open>double\<close>: no claim computes with it, so it
  stays a parameter (with a zero, for \<^verbatim>\<open>NIL_VAL\<close>).
\<close>

datatype 'd ValueAs = boolean bool | number 'd

record 'd Value =
  type_Value :: ValueType
  as :: "'d ValueAs"

definition BOOL_VAL :: "bool \<Rightarrow> 'd Value" where
  "BOOL_VAL v = \<lparr>type_Value = VAL_BOOL, as = boolean v\<rparr>"

definition NIL_VAL :: "('d::zero) Value" where
  "NIL_VAL = \<lparr>type_Value = VAL_NIL, as = number 0\<rparr>"

definition NUMBER_VAL :: "'d \<Rightarrow> 'd Value" where
  "NUMBER_VAL v = \<lparr>type_Value = VAL_NUMBER, as = number v\<rparr>"

definition IS_BOOL :: "'d Value \<Rightarrow> bool" where
  "IS_BOOL v = (type_Value v = VAL_BOOL)"

definition IS_NIL :: "'d Value \<Rightarrow> bool" where
  "IS_NIL v = (type_Value v = VAL_NIL)"

definition IS_NUMBER :: "'d Value \<Rightarrow> bool" where
  "IS_NUMBER v = (type_Value v = VAL_NUMBER)"


section \<open>Tokens and the scanner (scanner.h, used by compiler.c)\<close>

text \<open>
  The token types, in the order in which the table \<^verbatim>\<open>rules\<close> of compiler.c lists them
  (one row per enumerator, each row commented with its name).
\<close>

datatype TokenType =
    TOKEN_LEFT_PAREN | TOKEN_RIGHT_PAREN | TOKEN_LEFT_BRACE | TOKEN_RIGHT_BRACE
  | TOKEN_COMMA | TOKEN_DOT | TOKEN_MINUS | TOKEN_PLUS | TOKEN_SEMICOLON
  | TOKEN_SLASH | TOKEN_STAR | TOKEN_BANG | TOKEN_BANG_EQUAL | TOKEN_EQUAL
  | TOKEN_EQUAL_EQUAL | TOKEN_GREATER | TOKEN_GREATER_EQUAL | TOKEN_LESS
  | TOKEN_LESS_EQUAL | TOKEN_IDENTIFIER | TOKEN_STRING | TOKEN_NUMBER | TOKEN_AND
  | TOKEN_CLASS | TOKEN_ELSE | TOKEN_FALSE | TOKEN_FOR | TOKEN_FUN | TOKEN_IF
  | TOKEN_NIL | TOKEN_OR | TOKEN_PRINT | TOKEN_RETURN | TOKEN_SUPER | TOKEN_THIS
  | TOKEN_TRUE | TOKEN_VAR | TOKEN_WHILE | TOKEN_ERROR | TOKEN_EOF

text \<open>The enumerator's number, which indexes \<^verbatim>\<open>rules\<close>.\<close>

fun TokenType_index :: "TokenType \<Rightarrow> nat" where
  "TokenType_index TOKEN_LEFT_PAREN = 0"
| "TokenType_index TOKEN_RIGHT_PAREN = 1"
| "TokenType_index TOKEN_LEFT_BRACE = 2"
| "TokenType_index TOKEN_RIGHT_BRACE = 3"
| "TokenType_index TOKEN_COMMA = 4"
| "TokenType_index TOKEN_DOT = 5"
| "TokenType_index TOKEN_MINUS = 6"
| "TokenType_index TOKEN_PLUS = 7"
| "TokenType_index TOKEN_SEMICOLON = 8"
| "TokenType_index TOKEN_SLASH = 9"
| "TokenType_index TOKEN_STAR = 10"
| "TokenType_index TOKEN_BANG = 11"
| "TokenType_index TOKEN_BANG_EQUAL = 12"
| "TokenType_index TOKEN_EQUAL = 13"
| "TokenType_index TOKEN_EQUAL_EQUAL = 14"
| "TokenType_index TOKEN_GREATER = 15"
| "TokenType_index TOKEN_GREATER_EQUAL = 16"
| "TokenType_index TOKEN_LESS = 17"
| "TokenType_index TOKEN_LESS_EQUAL = 18"
| "TokenType_index TOKEN_IDENTIFIER = 19"
| "TokenType_index TOKEN_STRING = 20"
| "TokenType_index TOKEN_NUMBER = 21"
| "TokenType_index TOKEN_AND = 22"
| "TokenType_index TOKEN_CLASS = 23"
| "TokenType_index TOKEN_ELSE = 24"
| "TokenType_index TOKEN_FALSE = 25"
| "TokenType_index TOKEN_FOR = 26"
| "TokenType_index TOKEN_FUN = 27"
| "TokenType_index TOKEN_IF = 28"
| "TokenType_index TOKEN_NIL = 29"
| "TokenType_index TOKEN_OR = 30"
| "TokenType_index TOKEN_PRINT = 31"
| "TokenType_index TOKEN_RETURN = 32"
| "TokenType_index TOKEN_SUPER = 33"
| "TokenType_index TOKEN_THIS = 34"
| "TokenType_index TOKEN_TRUE = 35"
| "TokenType_index TOKEN_VAR = 36"
| "TokenType_index TOKEN_WHILE = 37"
| "TokenType_index TOKEN_ERROR = 38"
| "TokenType_index TOKEN_EOF = 39"

text \<open>
  A token: its type, \<^verbatim>\<open>start\<close> (a pointer into the source text, here the characters
  from the token's first one on), the lexeme's length and the line. For an error token
  \<^verbatim>\<open>start\<close> is the scanner's message.
\<close>

record Token =
  type :: TokenType
  start :: string
  length_Token :: int
  line :: int

text \<open>
  Modelled from the spec: the scanner (scanner.c) is not among the sources; the compiler
  consumes \<^verbatim>\<open>scanToken() -> Token{type, start+length, line}\<close> from it. A scanner that has
  been initialised on a source text is the sequence of tokens it will return, and once
  they are used up it returns the end-of-input token, again and again.
\<close>

record Scanner =
  pending :: "Token list"
  eof_line :: int

definition eof_Token :: "int \<Rightarrow> Token" where
  "eof_Token l = \<lparr>type = TOKEN_EOF, start = [], length_Token = 0, line = l\<rparr>"

definition scanToken :: "Scanner \<Rightarrow> Token \<times> Scanner" where
  "scanToken s =
     (case pending s of
        [] \<Rightarrow> (eof_Token (eof_line s), s)
      | t # ts \<Rightarrow> (t, s\<lparr>pending := ts\<rparr>))"


section \<open>Chunks (chunk.h, used by compiler.c)\<close>

text \<open>
  Modelled from the spec: chunk.h and chunk.c are not among the sources. The spec gives
  the opcode set \<^verbatim>\<open>{CONSTANT, ADD, SUB, MULT, DIV, NEGATE, TRUE, FALSE, NIL, RETURN}\<close>
  (compiler.c names them \<^verbatim>\<open>OP_...\<close>), an opcode being a one-byte instruction tag, and the
  two operations "append-byte-with-line" and "append-constant-returning-index". A chunk is
  its code bytes, the line of each byte and the constant pool.
\<close>

datatype OpCode =
    OP_CONSTANT | OP_ADD | OP_SUB | OP_MULT | OP_DIV | OP_NEGATE
  | OP_TRUE | OP_FALSE | OP_NIL | OP_RETURN

record 'd Chunk =
  code :: "8 word list"
  lines :: "int list"
  constants :: "'d Value list"

definition writeChunk :: "'d Chunk \<Rightarrow> 8 word \<Rightarrow> int \<Rightarrow> 'd Chunk" where
  "writeChunk c byte ln = c\<lparr>code := code c @ [byte], lines := lines c @ [ln]\<rparr>"

definition addConstant :: "'d Chunk \<Rightarrow> 'd Value \<Rightarrow> 'd Chunk \<times> int" where
  "addConstant c v = (c\<lparr>constants := constants c @ [v]\<rparr>, int (length (constants c)))"

definition UINT8_MAX :: int where
  "UINT8_MAX = 255"

text \<open>
  What compiler.c takes from outside the repository's sources: libc's \<^verbatim>\<open>strtod\<close>, and the
  number of each enumerator of \<^verbatim>\<open>OpCode\<close>, which chunk.h declares.
\<close>

record 'd Env =
  strtod :: "string \<Rightarrow> 'd"
  opcode :: "OpCode \<Rightarrow> 8 word"


section \<open>The compiler's state (compiler.c)\<close>

record Parser =
  previous :: Token
  current :: Token
  hadError :: bool
  panicMode :: bool

text \<open>
  One line written to the diagnostic stream by \<^verbatim>\<open>errorAt\<close>: the line number, the
  text that says where (\<^verbatim>\<open>" at end"\<close>, nothing, or \<^verbatim>\<open>" at '<lexeme>'"\<close>) and the message.
\<close>

type_synonym Diagnostic = "int \<times> string \<times> string"

text \<open>
  The globals \<^verbatim>\<open>parser\<close> and \<^verbatim>\<open>compilingChunk\<close> (the chunk it points to), with the
  scanner's state and the diagnostic stream.
\<close>

record 'd Globals =
  parser :: Parser
  compilingChunk :: "'d Chunk"
  scanner :: Scanner
  stderr :: "Diagnostic list"


section \<open>Operator precedence and the parse rules (compiler.c)\<close>

text \<open>
  \<^verbatim>\<open>Precedence\<close> is an enum whose values the code compares with \<^verbatim>\<open><=\<close> and increments
  (\<^verbatim>\<open>(Precedence)(rule->precedence + 1)\<close>), so it is modelled by its integer values.
\<close>

type_synonym Precedence = int

definition PREC_NONE :: Precedence where "PREC_NONE = 0"
definition PREC_ASSIGN :: Precedence where "PREC_ASSIGN = 1"
definition PREC_OR :: Precedence where "PREC_OR = 2"
definition PREC_AND :: Precedence where "PREC_AND = 3"
definition PREC_EQUALITY :: Precedence where "PREC_EQUALITY = 4"
definition PREC_COMPARISON :: Precedence where "PREC_COMPARISON = 5"
definition PREC_TERM :: Precedence where "PREC_TERM = 6"
definition PREC_FACTOR :: Precedence where "PREC_FACTOR = 7"
definition PREC_UNARY :: Precedence where "PREC_UNARY = 8"
definition PREC_CALL :: Precedence where "PREC_CALL = 9"
definition PREC_PRIMARY :: Precedence where "PREC_PRIMARY = 10"

text \<open>
  \<^verbatim>\<open>typedef void (*ParseFn)();\<close> The functions whose addresses the table holds; a NULL
  pointer is \<open>None\<close>.
\<close>

datatype ParseFn = FN_binary | FN_unary | FN_literal | FN_number | FN_grouping

record ParseRule =
  prefixRule :: "ParseFn option"
  infixRule :: "ParseFn option"
  precedence :: Precedence

text \<open>One row \<^verbatim>\<open>{prefix, infix, precedence}\<close> of the table.\<close>

definition ParseRule_row :: "ParseFn option \<Rightarrow> ParseFn option \<Rightarrow> Precedence \<Rightarrow> ParseRule" where
  "ParseRule_row p i pr = \<lparr>prefixRule = p, infixRule = i, precedence = pr\<rparr>"

definition rules :: "ParseRule list" where
  "rules = [
    ParseRule_row (Some FN_grouping) None PREC_NONE,
    ParseRule_row None None PREC_NONE,
    ParseRule_row None None PREC_NONE,
    ParseRule_row None None PREC_NONE,
    ParseRule_row None None PREC_NONE,
    ParseRule_row None None PREC_NONE,
    ParseRule_row (Some FN_unary) (Some FN_binary) PREC_TERM,
    ParseRule_row None (Some FN_binary) PREC_TERM,
    ParseRule_row None None PREC_NONE,
    ParseRule_row None (Some FN_binary) PREC_FACTOR,
    ParseRule_row None (Some FN_binary) PREC_FACTOR,
    ParseRule_row None None PREC_NONE,
    ParseRule_row None None PREC_NONE,
    ParseRule_row None None PREC_NONE,
    ParseRule_row None None PREC_NONE,
    ParseRule_row None None PREC_NONE,
    ParseRule_row None None PREC_NONE,
    ParseRule_row None None PREC_NONE,
    ParseRule_row None None PREC_NONE,
    ParseRule_row None None PREC_NONE,
    ParseRule_row None None PREC_NONE,
    ParseRule_row (Some FN_number) None PREC_NONE,
    ParseRule_row None None PREC_NONE,
    ParseRule_row None None PREC_NONE,
    ParseRule_row None None PREC_NONE,
    ParseRule_row (Some FN_literal) None PREC_NONE,
    ParseRule_row None None PREC_NONE,
    ParseRule_row None None PREC_NONE,
    ParseRule_row None None PREC_NONE,
    ParseRule_row (Some FN_literal) None PREC_NONE,
    ParseRule_row None None PREC_NONE,
    ParseRule_row None None PREC_NONE,
    ParseRule_row None None PREC_NONE,
    ParseRule_row None None PREC_NONE,
    ParseRule_row None None PREC_NONE,
    ParseRule_row (Some FN_literal) None PREC_NONE,
    ParseRule_row None None PREC_NONE,
    ParseRule_row None None PREC_NONE,
    ParseRule_row None None PREC_NONE,
    ParseRule_row None None PREC_NONE]"

definition getRule :: "TokenType \<Rightarrow> ParseRule" where
  "getRule t = rules ! TokenType_index t"


section \<open>Helper functions of the compiler (compiler.c)\<close>

definition errorAt :: "Token \<Rightarrow> string \<Rightarrow> 'd Globals \<Rightarrow> 'd Globals" where
  "errorAt token message g =
     (if panicMode (parser g) then g
      else
        let place =
              (if type token = TOKEN_EOF then '' at end''
               else if type token = TOKEN_ERROR then []
               else '' at '' @ [CHR 0x27] @ take (nat (length_Token token)) (start token)
                      @ [CHR 0x27])
        in g\<lparr>parser := (parser g)\<lparr>panicMode := True, hadError := True\<rparr>,
              stderr := stderr g @ [(line token, place, message)]\<rparr>)"

text \<open>\<^verbatim>\<open>static void error(const char* message) { errorAt(&parser.current, message); }\<close>\<close>

definition error :: "string \<Rightarrow> 'd Globals \<Rightarrow> 'd Globals" where
  "error message g = errorAt (current (parser g)) message g"

text \<open>\<^verbatim>\<open>static void errorAtCurrent(const char* message) {}\<close>: the body is empty.\<close>

definition errorAtCurrent :: "string \<Rightarrow> 'd Globals \<Rightarrow> 'd Globals" where
  "errorAtCurrent message g = g"

text \<open>
  The loop of \<^verbatim>\<open>advance\<close>: take the scanner's next token as the current one, and go on
  while it is an error token.
\<close>

function advance_loop :: "'d Globals \<Rightarrow> 'd Globals" where
  "advance_loop g =
     (let (t, s) = scanToken (scanner g);
          g1 = g\<lparr>parser := (parser g)\<lparr>current := t\<rparr>, scanner := s\<rparr>
      in if type t \<noteq> TOKEN_ERROR then g1
         else advance_loop (errorAtCurrent (start t) g1))"
  by pat_completeness auto
termination
  by (relation "measure (\<lambda>g. length (pending (scanner g)))")
     (auto simp: scanToken_def eof_Token_def errorAtCurrent_def split: list.splits)

definition advance :: "'d Globals \<Rightarrow> 'd Globals" where
  "advance g = advance_loop (g\<lparr>parser := (parser g)\<lparr>previous := current (parser g)\<rparr>\<rparr>)"

definition consume :: "TokenType \<Rightarrow> string \<Rightarrow> 'd Globals \<Rightarrow> 'd Globals" where
  "consume t message g =
     (if type (current (parser g)) = t then advance g
      else errorAtCurrent message g)"

definition emitByte :: "8 word \<Rightarrow> 'd Globals \<Rightarrow> 'd Globals" where
  "emitByte byte g =
     g\<lparr>compilingChunk := writeChunk (compilingChunk g) byte (line (previous (parser g)))\<rparr>"

definition emitBytes :: "8 word \<Rightarrow> 8 word \<Rightarrow> 'd Globals \<Rightarrow> 'd Globals" where
  "emitBytes byte1 byte2 g = emitByte byte2 (emitByte byte1 g)"

definition emitReturn :: "'d Env \<Rightarrow> 'd Globals \<Rightarrow> 'd Globals" where
  "emitReturn env g = emitByte (opcode env OP_RETURN) g"

definition makeConstant :: "'d Value \<Rightarrow> 'd Globals \<Rightarrow> 8 word \<times> 'd Globals" where
  "makeConstant v g =
     (let (c, constantIndex) = addConstant (compilingChunk g) v;
          g1 = g\<lparr>compilingChunk := c\<rparr>
      in if constantIndex > UINT8_MAX
         then (0, error ''Too many constants in one chunk.'' g1)
         else (word_of_int constantIndex, g1))"

text \<open>
  \<^verbatim>\<open>emitBytes(OP_CONSTANT, makeConstant(value))\<close>: the argument is evaluated before the
  call, so the constant enters the pool before the two bytes are written.
\<close>

definition emitConstant :: "'d Env \<Rightarrow> 'd Value \<Rightarrow> 'd Globals \<Rightarrow> 'd Globals" where
  "emitConstant env v g =
     (let (index, g1) = makeConstant v g
      in emitBytes (opcode env OP_CONSTANT) index g1)"

text \<open>Without \<^verbatim>\<open>DEBUG_PRINT_CODE\<close>, which only prints.\<close>

definition endCompiler :: "'d Env \<Rightarrow> 'd Globals \<Rightarrow> 'd Globals" where
  "endCompiler env g = emitReturn env g"


section \<open>The parsing functions (compiler.c)\<close>

definition number :: "'d Env \<Rightarrow> 'd Globals \<Rightarrow> 'd Globals" where
  "number env g =
     (let v = strtod env (start (previous (parser g)))
      in emitConstant env (NUMBER_VAL v) g)"

definition literal :: "'d Env \<Rightarrow> 'd Globals \<Rightarrow> 'd Globals" where
  "literal env g =
     (let t = type (previous (parser g))
      in if t = TOKEN_TRUE then emitByte (opcode env OP_TRUE) g
         else if t = TOKEN_FALSE then emitByte (opcode env OP_FALSE) g
         else if t = TOKEN_NIL then emitByte (opcode env OP_NIL) g
         else g)"

text \<open>The \<^verbatim>\<open>switch\<close> that ends \<^verbatim>\<open>binary\<close>, and the one that ends \<^verbatim>\<open>unary\<close>.\<close>

definition binary_emit :: "'d Env \<Rightarrow> TokenType \<Rightarrow> 'd Globals \<Rightarrow> 'd Globals" where
  "binary_emit env operator g =
     (if operator = TOKEN_PLUS then emitByte (opcode env OP_ADD) g
      else if operator = TOKEN_MINUS then emitByte (opcode env OP_SUB) g
      else if operator = TOKEN_STAR then emitByte (opcode env OP_MULT) g
      else if operator = TOKEN_SLASH then emitByte (opcode env OP_DIV) g
      else g)"

definition unary_emit :: "'d Env \<Rightarrow> TokenType \<Rightarrow> 'd Globals \<Rightarrow> 'd Globals" where
  "unary_emit env operatorType g =
     (if operatorType = TOKEN_MINUS then emitByte (opcode env OP_NEGATE) g else g)"

text \<open>
  What can go wrong in a run of the parsing functions beyond a reported compile error:
  the call of a NULL function pointer.
\<close>

datatype crash = NullFunctionCall

text \<open>
  The outcome of a call: \<open>None\<close> when the fuel ran out before the call returned,
  \<open>Some (Inl c)\<close> when it crashed, \<open>Some (Inr g)\<close> when it returned with the globals
  \<open>g\<close>.
\<close>

type_synonym 'd outcome = "(crash + 'd Globals) option"

definition and_then :: "'d outcome \<Rightarrow> ('d Globals \<Rightarrow> 'd outcome) \<Rightarrow> 'd outcome" where
  "and_then r f = (case r of None \<Rightarrow> None | Some (Inl c) \<Rightarrow> Some (Inl c) | Some (Inr g) \<Rightarrow> f g)"

text \<open>
  \<^verbatim>\<open>parsePrecedence\<close>, \<^verbatim>\<open>binary\<close>, \<^verbatim>\<open>unary\<close>, \<^verbatim>\<open>grouping\<close> and \<^verbatim>\<open>expression\<close> call one
  another, directly and through the function pointers of the table. They are one
  recursive function \<open>run\<close> over the routine that is entered: \<^verbatim>\<open>parsePrecedence\<close> with
  its argument, the \<^verbatim>\<open>while\<close> loop of \<^verbatim>\<open>parsePrecedence\<close>, a function of the table, or
  \<^verbatim>\<open>expression\<close>. The first argument is fuel: entering a routine takes one unit, and
  \<open>None\<close> says that the fuel ran out.
\<close>

datatype Routine =
    ParsePrecedence Precedence
  | ParsePrecedence_loop Precedence
  | Call ParseFn
  | Expression

fun run :: "nat \<Rightarrow> 'd Env \<Rightarrow> Routine \<Rightarrow> 'd Globals \<Rightarrow> 'd outcome" where
  "run 0 env r g = None"
| "run (Suc n) env (ParsePrecedence prec) g =
     (let g1 = advance g
      in case prefixRule (getRule (type (previous (parser g1)))) of
           None \<Rightarrow> Some (Inr (error ''Expected expression'' g1))
         | Some prefixFn \<Rightarrow>
             and_then (run n env (Call prefixFn) g1) (run n env (ParsePrecedence_loop prec)))"
| "run (Suc n) env (ParsePrecedence_loop prec) g =
     (if prec \<le> precedence (getRule (type (current (parser g)))) then
        (let g1 = advance g
         in case infixRule (getRule (type (previous (parser g1)))) of
              None \<Rightarrow> Some (Inl NullFunctionCall)
            | Some infixFn \<Rightarrow>
                and_then (run n env (Call infixFn) g1) (run n env (ParsePrecedence_loop prec)))
      else Some (Inr g))"
| "run (Suc n) env (Call FN_number) g = Some (Inr (number env g))"
| "run (Suc n) env (Call FN_literal) g = Some (Inr (literal env g))"
| "run (Suc n) env Expression g = run n env (ParsePrecedence PREC_ASSIGN) g"
| "run (Suc n) env (Call FN_binary) g =
     (let operator = type (previous (parser g));
          r = getRule operator
      in and_then (run n env (ParsePrecedence (precedence r + 1)) g)
           (\<lambda>g1. Some (Inr (binary_emit env operator g1))))"
| "run (Suc n) env (Call FN_unary) g =
     (let operatorType = type (previous (parser g))
      in and_then (run n env (ParsePrecedence PREC_UNARY) g)
           (\<lambda>g1. Some (Inr (unary_emit env operatorType g1))))"
| "run (Suc n) env (Call FN_grouping) g =
     and_then (run n env Expression g)
       (\<lambda>g1. Some (Inr (consume TOKEN_RIGHT_PAREN ''Expected ')' after expression.'' g1)))"

definition parsePrecedence :: "nat \<Rightarrow> 'd Env \<Rightarrow> Precedence \<Rightarrow> 'd Globals \<Rightarrow> 'd outcome" where
  "parsePrecedence n env prec g = run n env (ParsePrecedence prec) g"

definition expression :: "nat \<Rightarrow> 'd Env \<Rightarrow> 'd Globals \<Rightarrow> 'd outcome" where
  "expression n env g = run n env Expression g"

definition binary :: "nat \<Rightarrow> 'd Env \<Rightarrow> 'd Globals \<Rightarrow> 'd outcome" where
  "binary n env g = run n env (Call FN_binary) g"

definition unary :: "nat \<Rightarrow> 'd Env \<Rightarrow> 'd Globals \<Rightarrow> 'd outcome" where
  "unary n env g = run n env (Call FN_unary) g"

definition grouping :: "nat \<Rightarrow> 'd Env \<Rightarrow> 'd Globals \<Rightarrow> 'd outcome" where
  "grouping n env g = run n env (Call FN_grouping) g"

text \<open>
  \<^verbatim>\<open>bool compile(const char* source, Chunk* chunk)\<close>. \<^verbatim>\<open>initScanner(source)\<close> belongs to
  the scanner: \<open>source\<close> is the scanner it leaves. The globals \<open>g\<close> are those the
  process has when \<^verbatim>\<open>compile\<close> is called; the function assigns \<^verbatim>\<open>compilingChunk\<close>, and
  it assigns neither \<^verbatim>\<open>parser.hadError\<close> nor \<^verbatim>\<open>parser.panicMode\<close>. The result is the
  returned \<^verbatim>\<open>bool\<close> and the globals at return.
\<close>

definition compile ::
  "nat \<Rightarrow> 'd Env \<Rightarrow> Scanner \<Rightarrow> 'd Chunk \<Rightarrow> 'd Globals \<Rightarrow> (crash + bool \<times> 'd Globals) option" where
  "compile n env source chunk g =
     (let g0 = g\<lparr>scanner := source, compilingChunk := chunk\<rparr>;
          g1 = advance g0
      in case expression n env g1 of
           None \<Rightarrow> None
         | Some (Inl c) \<Rightarrow> Some (Inl c)
         | Some (Inr g2) \<Rightarrow>
             (let g3 = consume TOKEN_EOF ''Expected end of expression.'' g2;
                  g4 = endCompiler env g3
              in Some (Inr (\<not> hadError (parser g4), g4))))"

text \<open>
  The globals of a process that has not compiled yet: C zero-initialises \<^verbatim>\<open>parser\<close>
  (token type 0, a null \<^verbatim>\<open>start\<close>, both flags false); no chunk, no pending token and no
  diagnostic yet.
\<close>

definition zero_Token :: Token where
  "zero_Token = \<lparr>type = TOKEN_LEFT_PAREN, start = [], length_Token = 0, line = 0\<rparr>"

definition zero_Parser :: Parser where
  "zero_Parser = \<lparr>previous = zero_Token, current = zero_Token, hadError = False, panicMode = False\<rparr>"

definition empty_Chunk :: "'d Chunk" where
  "empty_Chunk = \<lparr>code = [], lines = [], constants = []\<rparr>"

definition initial_Globals :: "'d Globals" where
  "initial_Globals =
     \<lparr>parser = zero_Parser, compilingChunk = empty_Chunk,
      scanner = \<lparr>pending = [], eof_line = 0\<rparr>, stderr = []\<rparr>"


section \<open>Objects and strings (object.c)\<close>

text \<open>
  A pointer to an object is a heap address, or NULL. The only object type object.c
  names is \<^verbatim>\<open>OBJ_STRING\<close>, so a heap cell is an \<^verbatim>\<open>ObjString\<close>: the header \<^verbatim>\<open>Obj\<close> (its type
  and the link \<^verbatim>\<open>next\<close>), the length, the hash and the character array, a list whose
  length is the number of bytes allocated for it.
\<close>

type_synonym ptr = "nat option"

datatype ObjType = OBJ_STRING

record ObjString =
  type_Obj :: ObjType
  "next" :: ptr
  length_ObjString :: int
  hash :: "32 word"
  chars :: "8 word list"

text \<open>
  Modelled from the spec: the intern-table module (table.c) is not among the sources.
  The spec gives its two operations, \<^verbatim>\<open>set(key,value)\<close> and
  \<^verbatim>\<open>find-by-content(bytes,length,hash) -> optional canonical reference\<close>, the table being
  a mapping from byte content to the canonical string object of that content. A table is
  the list of its entries, a key (the address of a string object) with a value;
  \<open>tableSet\<close> overwrites the value of a key that is present and adds an entry otherwise;
  \<open>tableFindString\<close> returns the first key whose string has the given length, hash and
  bytes.
\<close>

type_synonym 'd Table = "(nat \<times> 'd Value) list"

definition tableSet :: "'d Table \<Rightarrow> nat \<Rightarrow> 'd Value \<Rightarrow> 'd Table" where
  "tableSet t key v =
     (if key \<in> fst ` set t then map (\<lambda>(k, w). if k = key then (k, v) else (k, w)) t
      else t @ [(key, v)])"

definition tableFindString ::
  "(nat \<rightharpoonup> ObjString) \<Rightarrow> 'd Table \<Rightarrow> 8 word list \<Rightarrow> int \<Rightarrow> 32 word \<Rightarrow> ptr" where
  "tableFindString h t cs len hsh =
     map_option fst
       (find (\<lambda>(k, w). case h k of
                 None \<Rightarrow> False
               | Some s \<Rightarrow> length_ObjString s = len \<and> hash s = hsh
                           \<and> take (nat len) (chars s) = take (nat len) cs) t)"

text \<open>
  The runtime's state: the heap (\<open>brk\<close> is the address the next allocation returns;
  an address is never handed out twice), and of the global \<^verbatim>\<open>vm\<close> the head
  \<^verbatim>\<open>vm.objects\<close> of the object list and the intern table \<^verbatim>\<open>vm.strings\<close>.
\<close>

record 'd VM =
  heap :: "nat \<rightharpoonup> ObjString"
  brk :: nat
  objects :: ptr
  strings :: "'d Table"

text \<open>
  Modelled from the spec: \<^verbatim>\<open>reallocate\<close> (memory.c) is not among the sources; the spec
  calls it raw allocation, with allocation failure fatal. A fresh block holds whatever
  was in memory: its \<^verbatim>\<open>next\<close> link, its hash and each byte of its character array are
  given by \<open>Junk\<close>, a parameter of every function that allocates.
\<close>

record Junk =
  junk_next :: ptr
  junk_hash :: "32 word"
  junk_chars :: "nat \<Rightarrow> 8 word"

text \<open>
  \<open>reallocate_new j n vm\<close> is \<^verbatim>\<open>reallocate(NULL, 0, sizeof(ObjString) + n)\<close>: the address
  of a fresh block with room for \<open>n\<close> characters, and the state with that block.
\<close>

definition reallocate_new :: "Junk \<Rightarrow> nat \<Rightarrow> 'd VM \<Rightarrow> nat \<times> 'd VM" where
  "reallocate_new j n vm =
     (let a = brk vm;
          block = \<lparr>type_Obj = OBJ_STRING, next = junk_next j, length_ObjString = 0,
                   hash = junk_hash j, chars = map (junk_chars j) [0..<n]\<rparr>
      in (a, vm\<lparr>heap := (heap vm)(a \<mapsto> block), brk := Suc a\<rparr>))"

text \<open>What a string function can do wrong: read or write outside a buffer, or follow
  a pointer that is not the address of an object.\<close>

datatype fault = OutOfBounds | InvalidPointer

text \<open>
  \<^verbatim>\<open>allocateObject(size, type)\<close> and \<^verbatim>\<open>xallocateObject(size, type)\<close>, with the number of
  characters \<open>n\<close> for the size \<^verbatim>\<open>sizeof(ObjString) + n\<close>.
\<close>

definition allocateObject :: "Junk \<Rightarrow> nat \<Rightarrow> ObjType \<Rightarrow> 'd VM \<Rightarrow> nat \<times> 'd VM" where
  "allocateObject j n t vm =
     (let (a, vm1) = reallocate_new j n vm;
          object = the (heap vm1 a)
      in (a, vm1\<lparr>heap := (heap vm1)(a \<mapsto> object\<lparr>type_Obj := t, next := objects vm1\<rparr>),
                objects := Some a\<rparr>))"

definition xallocateObject :: "Junk \<Rightarrow> nat \<Rightarrow> ObjType \<Rightarrow> 'd VM \<Rightarrow> nat \<times> 'd VM" where
  "xallocateObject j n t vm =
     (let (a, vm1) = reallocate_new j n vm;
          object = the (heap vm1 a)
      in (a, vm1\<lparr>heap := (heap vm1)(a \<mapsto> object\<lparr>type_Obj := t\<rparr>)\<rparr>))"

text \<open>
  \<^verbatim>\<open>hash ^= key[i]\<close>: \<^verbatim>\<open>key[i]\<close> is a \<^verbatim>\<open>char\<close>, converted to \<^verbatim>\<open>uint32_t\<close> for the xor.
  Whether \<^verbatim>\<open>char\<close> is signed is the platform's choice, the first argument.
\<close>

definition char_to_uint32 :: "bool \<Rightarrow> 8 word \<Rightarrow> 32 word" where
  "char_to_uint32 char_signed c = (if char_signed then scast c else ucast c)"

fun hashString_loop :: "bool \<Rightarrow> 8 word list \<Rightarrow> nat \<Rightarrow> 32 word \<Rightarrow> fault + 32 word" where
  "hashString_loop sg key 0 h = Inr h"
| "hashString_loop sg [] (Suc n) h = Inl OutOfBounds"
| "hashString_loop sg (c # key) (Suc n) h =
     hashString_loop sg key n ((h XOR char_to_uint32 sg c) * 16777619)"

definition hashString :: "bool \<Rightarrow> 8 word list \<Rightarrow> int \<Rightarrow> fault + 32 word" where
  "hashString sg key len = hashString_loop sg key (nat len) 2166136261"

text \<open>
  The loop of \<^verbatim>\<open>allocateString\<close>, \<^verbatim>\<open>for (int i = 0; chars[i]; i++) string->chars[i] = chars[i];\<close>
  with the source bytes from index \<open>i\<close> on as first argument and the destination array
  as second.
\<close>

fun allocateString_loop :: "8 word list \<Rightarrow> 8 word list \<Rightarrow> nat \<Rightarrow> fault + 8 word list" where
  "allocateString_loop [] dst i = Inl OutOfBounds"
| "allocateString_loop (c # cs) dst i =
     (if c = 0 then Inr dst
      else if i < length dst then allocateString_loop cs (dst[i := c]) (Suc i)
      else Inl OutOfBounds)"

definition allocateString ::
  "bool \<Rightarrow> Junk \<Rightarrow> 8 word list \<Rightarrow> int \<Rightarrow> 'd VM \<Rightarrow> fault + nat \<times> 'd VM" where
  "allocateString sg j cs len vm =
     (if len < 0 then Inl OutOfBounds
      else
        let (a, vm1) = allocateObject j (nat (len + 1)) OBJ_STRING vm;
            string = the (heap vm1 a)
        in case allocateString_loop cs (chars string) 0 of
             Inl f \<Rightarrow> Inl f
           | Inr copied \<Rightarrow>
               (let terminated = copied[nat len := 0]
                in case hashString sg terminated len of
                     Inl f \<Rightarrow> Inl f
                   | Inr h \<Rightarrow>
                       Inr (a, vm1\<lparr>heap := (heap vm1)(a \<mapsto>
                              string\<lparr>length_ObjString := len, chars := terminated,
                                     hash := h\<rparr>)\<rparr>)))"

definition takeString ::
  "bool \<Rightarrow> Junk \<Rightarrow> 8 word list \<Rightarrow> int \<Rightarrow> 'd VM \<Rightarrow> fault + nat \<times> 'd VM" where
  "takeString sg j cs len vm = allocateString sg j cs len vm"

text \<open>The loop of \<^verbatim>\<open>writeToString\<close>: \<^verbatim>\<open>for (i = 0; i < string->length; i++)\<close>.\<close>

fun writeToString_loop :: "8 word list \<Rightarrow> 8 word list \<Rightarrow> nat \<Rightarrow> nat \<Rightarrow> fault + 8 word list" where
  "writeToString_loop cs dst i 0 = Inr dst"
| "writeToString_loop [] dst i (Suc n) = Inl OutOfBounds"
| "writeToString_loop (c # cs) dst i (Suc n) =
     (if i < length dst then writeToString_loop cs (dst[i := c]) (Suc i) n
      else Inl OutOfBounds)"

definition writeToString :: "bool \<Rightarrow> nat \<Rightarrow> 8 word list \<Rightarrow> 'd VM \<Rightarrow> fault + 'd VM" where
  "writeToString sg a cs vm =
     (case heap vm a of
        None \<Rightarrow> Inl InvalidPointer
      | Some string \<Rightarrow>
          (let len = length_ObjString string
           in case writeToString_loop cs (chars string) 0 (nat len) of
                Inl f \<Rightarrow> Inl f
              | Inr copied \<Rightarrow>
                  (if len < 0 \<or> nat len \<ge> length copied then Inl OutOfBounds
                   else
                     let terminated = copied[nat len := 0]
                     in case hashString sg terminated len of
                          Inl f \<Rightarrow> Inl f
                        | Inr h \<Rightarrow>
                            Inr (vm\<lparr>heap := (heap vm)(a \<mapsto>
                                   string\<lparr>chars := terminated, hash := h\<rparr>)\<rparr>))))"

definition storeString :: "nat \<Rightarrow> ('d::zero) VM \<Rightarrow> fault + 'd VM" where
  "storeString a vm =
     (case heap vm a of
        None \<Rightarrow> Inl InvalidPointer
      | Some string \<Rightarrow>
          Inr (vm\<lparr>strings := tableSet (strings vm) a NIL_VAL,
                  heap := (heap vm)(a \<mapsto> string\<lparr>next := objects vm\<rparr>),
                  objects := Some a\<rparr>))"

definition xallocateString :: "Junk \<Rightarrow> int \<Rightarrow> 'd VM \<Rightarrow> fault + nat \<times> 'd VM" where
  "xallocateString j len vm =
     (if len < 0 then Inl OutOfBounds
      else
        let (a, vm1) = xallocateObject j (nat (len + 1)) OBJ_STRING vm;
            string = the (heap vm1 a)
        in Inr (a, vm1\<lparr>heap := (heap vm1)(a \<mapsto>
                  string\<lparr>length_ObjString := len, chars := (chars string)[nat len := 0]\<rparr>)\<rparr>))"

text \<open>
  \<^verbatim>\<open>void validateString(ObjString* string)\<close>: the assignment \<^verbatim>\<open>string = interned\<close> changes
  the function's own parameter, and \<^verbatim>\<open>storeString(string)\<close> follows in both cases.
\<close>

definition validateString :: "nat \<Rightarrow> ('d::zero) VM \<Rightarrow> fault + 'd VM" where
  "validateString a vm =
     (case heap vm a of
        None \<Rightarrow> Inl InvalidPointer
      | Some s \<Rightarrow>
          (let interned = tableFindString (heap vm) (strings vm) (chars s)
                            (length_ObjString s) (hash s);
               string = (case interned of Some i \<Rightarrow> i | None \<Rightarrow> a)
           in storeString string vm))"

definition copyString ::
  "bool \<Rightarrow> Junk \<Rightarrow> 8 word list \<Rightarrow> int \<Rightarrow> ('d::zero) VM \<Rightarrow> fault + ptr \<times> 'd VM" where
  "copyString sg j cs len vm =
     (case xallocateString j len vm of
        Inl f \<Rightarrow> Inl f
      | Inr (temp, vm1) \<Rightarrow>
          (case writeToString sg temp cs vm1 of
             Inl f \<Rightarrow> Inl f
           | Inr vm2 \<Rightarrow>
               (let t = the (heap vm2 temp);
                    interned = tableFindString (heap vm2) (strings vm2) (chars t) len (hash t)
                in if interned \<noteq> None
                   then Inr (interned, vm2\<lparr>heap := (heap vm2)(temp := None)\<rparr>)
                   else Inr (Some temp, vm2\<lparr>strings := tableSet (strings vm2) temp NIL_VAL\<rparr>))))"

text \<open>A runtime that has allocated nothing.\<close>

definition initial_VM :: "'d VM" where
  "initial_VM = \<lparr>heap = Map.empty, brk = 0, objects = None, strings = []\<rparr>"


text \<open>
  The hash the spec names for a string object, "FNV-1a over exactly \<open>length\<close> bytes",
  written from the spec's words and not from the code: start from the offset basis
  2166136261 and, for each byte in order, xor the byte (a value from 0 to 255) into the
  hash and multiply by the prime 16777619, in 32-bit arithmetic.
\<close>

definition FNV1a :: "8 word list \<Rightarrow> 32 word" where
  "FNV1a bs = fold (\<lambda>b h. (h XOR ucast b) * 16777619) bs 2166136261"


section \<open>Auxiliary facts about the compiler\<close>

lemmas Precedence_defs =
  PREC_NONE_def PREC_ASSIGN_def PREC_OR_def PREC_AND_def PREC_EQUALITY_def
  PREC_COMPARISON_def PREC_TERM_def PREC_FACTOR_def PREC_UNARY_def PREC_CALL_def
  PREC_PRIMARY_def

declare advance_loop.simps [simp del]

lemma and_then_simps [simp]:
  "and_then None f = None"
  "and_then (Some (Inl c)) f = Some (Inl c)"
  "and_then (Some (Inr g)) f = f g"
  by (simp_all add: and_then_def)

lemma and_then_mono:
  assumes "and_then r1 f1 = Some x"
    and "\<And>y. r1 = Some y \<Longrightarrow> r2 = Some y"
    and "\<And>g y. f1 g = Some y \<Longrightarrow> f2 g = Some y"
  shows "and_then r2 f2 = Some x"
proof (cases r1)
  case None
  with assms(1) show ?thesis by simp
next
  case (Some y)
  then have r2: "r2 = Some y" by (rule assms(2))
  show ?thesis
  proof (cases y)
    case (Inl c)
    from assms(1) Some Inl have "x = Inl c" by simp
    with r2 Inl show ?thesis by simp
  next
    case (Inr g)
    from assms(1) Some Inr have "f1 g = Some x" by simp
    then have "f2 g = Some x" by (rule assms(3))
    with r2 Inr show ?thesis by simp
  qed
qed

lemma and_then_no_crash:
  assumes "r \<noteq> Some (Inl c)" and "\<And>g. f g \<noteq> Some (Inl c)"
  shows "and_then r f \<noteq> Some (Inl c)"
  using assms by (auto simp: and_then_def split: option.splits sum.splits)

lemma advance_loop_eq:
  "advance_loop g =
     (case dropWhile (\<lambda>t. type t = TOKEN_ERROR) (pending (scanner g)) of
        [] \<Rightarrow> g\<lparr>parser := (parser g)\<lparr>current := eof_Token (eof_line (scanner g))\<rparr>,
                scanner := (scanner g)\<lparr>pending := []\<rparr>\<rparr>
      | t # ts \<Rightarrow> g\<lparr>parser := (parser g)\<lparr>current := t\<rparr>,
                    scanner := (scanner g)\<lparr>pending := ts\<rparr>\<rparr>)"
proof (induction "pending (scanner g)" arbitrary: g)
  case Nil
  then have p: "pending (scanner g) = []" by simp
  show ?case
    by (subst advance_loop.simps) (simp add: p scanToken_def eof_Token_def)
next
  case (Cons t ts)
  then have p: "pending (scanner g) = t # ts" by simp
  show ?case
  proof (cases "type t = TOKEN_ERROR")
    case False
    then show ?thesis
      by (subst advance_loop.simps) (simp add: p scanToken_def)
  next
    case True
    let ?g1 = "g\<lparr>parser := (parser g)\<lparr>current := t\<rparr>, scanner := (scanner g)\<lparr>pending := ts\<rparr>\<rparr>"
    have "advance_loop g = advance_loop ?g1"
      by (subst advance_loop.simps) (simp add: p scanToken_def True errorAtCurrent_def)
    also have "\<dots> = (case dropWhile (\<lambda>t. type t = TOKEN_ERROR) ts of
        [] \<Rightarrow> ?g1\<lparr>parser := (parser ?g1)\<lparr>current := eof_Token (eof_line (scanner ?g1))\<rparr>,
                scanner := (scanner ?g1)\<lparr>pending := []\<rparr>\<rparr>
      | t # ts \<Rightarrow> ?g1\<lparr>parser := (parser ?g1)\<lparr>current := t\<rparr>,
                    scanner := (scanner ?g1)\<lparr>pending := ts\<rparr>\<rparr>)"
      using Cons.hyps(1)[of ?g1] by simp
    finally show ?thesis
      by (cases "dropWhile (\<lambda>t. type t = TOKEN_ERROR) ts")
         (simp_all add: p True del: dropWhile_eq_Nil_conv)
  qed
qed

lemma advance_eq:
  "advance g =
     (case dropWhile (\<lambda>t. type t = TOKEN_ERROR) (pending (scanner g)) of
        [] \<Rightarrow> g\<lparr>parser := (parser g)\<lparr>previous := current (parser g),
                                       current := eof_Token (eof_line (scanner g))\<rparr>,
                scanner := (scanner g)\<lparr>pending := []\<rparr>\<rparr>
      | t # ts \<Rightarrow> g\<lparr>parser := (parser g)\<lparr>previous := current (parser g), current := t\<rparr>,
                    scanner := (scanner g)\<lparr>pending := ts\<rparr>\<rparr>)"
  by (cases "dropWhile (\<lambda>t. type t = TOKEN_ERROR) (pending (scanner g))")
     (simp_all add: advance_def advance_loop_eq del: dropWhile_eq_Nil_conv)

lemma advance_previous: "previous (parser (advance g)) = current (parser g)"
  by (cases "dropWhile (\<lambda>t. type t = TOKEN_ERROR) (pending (scanner g))")
     (simp_all add: advance_eq del: dropWhile_eq_Nil_conv)

lemma run_ParsePrecedence:
  "run (Suc n) env (ParsePrecedence prec) g =
     (case prefixRule (getRule (type (current (parser g)))) of
        None \<Rightarrow> Some (Inr (error ''Expected expression'' (advance g)))
      | Some f \<Rightarrow> and_then (run n env (Call f) (advance g)) (run n env (ParsePrecedence_loop prec)))"
  by (simp add: Let_def advance_previous)

lemma run_ParsePrecedence_loop:
  "run (Suc n) env (ParsePrecedence_loop prec) g =
     (if prec \<le> precedence (getRule (type (current (parser g)))) then
        (case infixRule (getRule (type (current (parser g)))) of
           None \<Rightarrow> Some (Inl NullFunctionCall)
         | Some f \<Rightarrow> and_then (run n env (Call f) (advance g)) (run n env (ParsePrecedence_loop prec)))
      else Some (Inr g))"
  by (simp add: Let_def advance_previous)

lemma run_binary:
  "run (Suc n) env (Call FN_binary) g =
     and_then (run n env (ParsePrecedence (precedence (getRule (type (previous (parser g)))) + 1)) g)
       (\<lambda>g1. Some (Inr (binary_emit env (type (previous (parser g))) g1)))"
  by (simp add: Let_def)

lemma run_unary:
  "run (Suc n) env (Call FN_unary) g =
     and_then (run n env (ParsePrecedence PREC_UNARY) g)
       (\<lambda>g1. Some (Inr (unary_emit env (type (previous (parser g))) g1)))"
  by (simp add: Let_def)

lemma run_grouping:
  "run (Suc n) env (Call FN_grouping) g =
     and_then (run n env Expression g)
       (\<lambda>g1. Some (Inr (consume TOKEN_RIGHT_PAREN ''Expected ')' after expression.'' g1)))"
  by simp

lemma run_Expression:
  "run (Suc n) env Expression g = run n env (ParsePrecedence PREC_ASSIGN) g"
  by simp

lemmas run_unfold =
  run_ParsePrecedence run_ParsePrecedence_loop run_binary run_unary run_grouping
  run_Expression run.simps(1,4,5)

declare run.simps [simp del]

lemma run_fuel_Suc: "run n env r g = Some x \<Longrightarrow> run (Suc n) env r g = Some x"
proof (induction n arbitrary: r g x)
  case 0
  then show ?case by (simp add: run.simps(1))
next
  case (Suc n)
  note IH = Suc.IH
  have step: "and_then (run (Suc n) env r1 g1) f2 = Some x"
    if "and_then (run n env r1 g1) f1 = Some x" and "\<And>g y. f1 g = Some y \<Longrightarrow> f2 g = Some y"
    for r1 g1 f1 f2
    using that(1) by (rule and_then_mono) (erule IH, erule that(2))
  show ?case
  proof (cases r)
    case (ParsePrecedence prec)
    show ?thesis
    proof (cases "prefixRule (getRule (type (current (parser g))))")
      case None
      with Suc.prems show ?thesis
        unfolding ParsePrecedence run_ParsePrecedence by simp
    next
      case (Some f)
      from Suc.prems have
        "and_then (run n env (Call f) (advance g)) (run n env (ParsePrecedence_loop prec)) = Some x"
        unfolding ParsePrecedence run_ParsePrecedence by (simp add: Some)
      then have
        "and_then (run (Suc n) env (Call f) (advance g)) (run (Suc n) env (ParsePrecedence_loop prec))
           = Some x"
        by (rule step) (erule IH)
      then show ?thesis
        unfolding ParsePrecedence run_ParsePrecedence by (simp add: Some)
    qed
  next
    case (ParsePrecedence_loop prec)
    show ?thesis
    proof (cases "prec \<le> precedence (getRule (type (current (parser g))))")
      case False
      with Suc.prems show ?thesis
        unfolding ParsePrecedence_loop run_ParsePrecedence_loop by simp
    next
      case True
      show ?thesis
      proof (cases "infixRule (getRule (type (current (parser g))))")
        case None
        with Suc.prems True show ?thesis
          unfolding ParsePrecedence_loop run_ParsePrecedence_loop by simp
      next
        case (Some f)
        from Suc.prems have
          "and_then (run n env (Call f) (advance g)) (run n env (ParsePrecedence_loop prec)) = Some x"
          unfolding ParsePrecedence_loop run_ParsePrecedence_loop by (simp add: Some True)
        then have
          "and_then (run (Suc n) env (Call f) (advance g))
             (run (Suc n) env (ParsePrecedence_loop prec)) = Some x"
          by (rule step) (erule IH)
        then show ?thesis
          unfolding ParsePrecedence_loop run_ParsePrecedence_loop by (simp add: Some True)
      qed
    qed
  next
    case (Call f)
    show ?thesis
    proof (cases f)
      case FN_binary
      show ?thesis using Suc.prems unfolding Call FN_binary run_binary
        by (rule step)
    next
      case FN_unary
      show ?thesis using Suc.prems unfolding Call FN_unary run_unary
        by (rule step)
    next
      case FN_literal
      show ?thesis using Suc.prems unfolding Call FN_literal by (simp add: run.simps)
    next
      case FN_number
      show ?thesis using Suc.prems unfolding Call FN_number by (simp add: run.simps)
    next
      case FN_grouping
      show ?thesis using Suc.prems unfolding Call FN_grouping run_grouping
        by (rule step)
    qed
  next
    case Expression
    show ?thesis using Suc.prems unfolding Expression run_Expression by (rule IH)
  qed
qed

lemma run_fuel_mono: "run n env r g = Some x \<Longrightarrow> n \<le> m \<Longrightarrow> run m env r g = Some x"
  by (induction m) (auto simp: le_Suc_eq run_fuel_Suc)

lemma getRule_precedence_nonneg: "PREC_NONE \<le> precedence (getRule t)"
  by (cases t) (simp_all add: getRule_def rules_def ParseRule_row_def Precedence_defs)

lemma getRule_infixRule: "PREC_NONE < precedence (getRule t) \<Longrightarrow> infixRule (getRule t) \<noteq> None"
  by (cases t) (simp_all add: getRule_def rules_def ParseRule_row_def Precedence_defs)

lemma run_no_crash:
  assumes "case r of ParsePrecedence p \<Rightarrow> PREC_ASSIGN \<le> p
                   | ParsePrecedence_loop p \<Rightarrow> PREC_ASSIGN \<le> p | _ \<Rightarrow> True"
  shows "run n env r g \<noteq> Some (Inl c)"
  using assms
proof (induction n arbitrary: r g)
  case 0
  show ?case by (simp add: run.simps(1))
next
  case (Suc n)
  have call: "run n env (Call f) g' \<noteq> Some (Inl c)" for f g'
    by (rule Suc.IH) simp
  have loop: "run n env (ParsePrecedence_loop p) g' \<noteq> Some (Inl c)" if "PREC_ASSIGN \<le> p" for p g'
    by (rule Suc.IH) (simp add: that)
  have pp: "run n env (ParsePrecedence p) g' \<noteq> Some (Inl c)" if "PREC_ASSIGN \<le> p" for p g'
    by (rule Suc.IH) (simp add: that)
  have expr: "run n env Expression g' \<noteq> Some (Inl c)" for g'
    by (rule Suc.IH) simp
  show ?case
  proof (cases r)
    case (ParsePrecedence prec)
    with Suc.prems have p: "PREC_ASSIGN \<le> prec" by simp
    show ?thesis
      unfolding ParsePrecedence run_ParsePrecedence
      by (cases "prefixRule (getRule (type (current (parser g))))")
         (simp_all add: and_then_no_crash call loop[OF p])
  next
    case (ParsePrecedence_loop prec)
    with Suc.prems have p: "PREC_ASSIGN \<le> prec" by simp
    show ?thesis
    proof (cases "prec \<le> precedence (getRule (type (current (parser g))))")
      case False
      then show ?thesis unfolding ParsePrecedence_loop run_ParsePrecedence_loop by simp
    next
      case True
      with p have "PREC_NONE < precedence (getRule (type (current (parser g))))"
        by (simp add: Precedence_defs)
      then obtain f where f: "infixRule (getRule (type (current (parser g)))) = Some f"
        using getRule_infixRule by blast
      show ?thesis
        unfolding ParsePrecedence_loop run_ParsePrecedence_loop
        by (simp add: True f and_then_no_crash call loop[OF p])
    qed
  next
    case (Call f)
    have "PREC_ASSIGN \<le> precedence (getRule (type (previous (parser g)))) + 1"
      using getRule_precedence_nonneg[of "type (previous (parser g))"]
      by (simp add: Precedence_defs)
    note b = pp[OF this]
    have u: "PREC_ASSIGN \<le> PREC_UNARY" by (simp add: Precedence_defs)
    show ?thesis
      unfolding Call
      by (cases f)
         (simp_all add: run_binary run_unary run_grouping run.simps and_then_no_crash b pp[OF u] expr)
  next
    case Expression
    have "PREC_ASSIGN \<le> PREC_ASSIGN" by simp
    from pp[OF this] show ?thesis unfolding Expression run_Expression .
  qed
qed

lemma getRule_simps:
  "getRule TOKEN_LEFT_PAREN = ParseRule_row (Some FN_grouping) None PREC_NONE"
  "getRule TOKEN_RIGHT_PAREN = ParseRule_row None None PREC_NONE"
  "getRule TOKEN_MINUS = ParseRule_row (Some FN_unary) (Some FN_binary) PREC_TERM"
  "getRule TOKEN_PLUS = ParseRule_row None (Some FN_binary) PREC_TERM"
  "getRule TOKEN_SLASH = ParseRule_row None (Some FN_binary) PREC_FACTOR"
  "getRule TOKEN_STAR = ParseRule_row None (Some FN_binary) PREC_FACTOR"
  "getRule TOKEN_NUMBER = ParseRule_row (Some FN_number) None PREC_NONE"
  "getRule TOKEN_FALSE = ParseRule_row (Some FN_literal) None PREC_NONE"
  "getRule TOKEN_NIL = ParseRule_row (Some FN_literal) None PREC_NONE"
  "getRule TOKEN_TRUE = ParseRule_row (Some FN_literal) None PREC_NONE"
  "getRule TOKEN_EOF = ParseRule_row None None PREC_NONE"
  by (simp_all add: getRule_def rules_def)

lemma compile_fuel_mono:
  assumes "compile n env src c g = Some x" and "n \<le> m"
  shows "compile m env src c g = Some x"
proof -
  let ?g1 = "advance (g\<lparr>scanner := src, compilingChunk := c\<rparr>)"
  from assms(1) obtain y where y: "run n env Expression ?g1 = Some y"
    by (cases "run n env Expression ?g1") (simp_all add: compile_def expression_def Let_def)
  then have "run m env Expression ?g1 = Some y" using assms(2) by (rule run_fuel_mono)
  with y assms(1) show ?thesis by (simp add: compile_def expression_def Let_def)
qed

text \<open>The equations that evaluate a run of \<open>compile\<close> on a given token sequence.\<close>

lemmas compile_eval =
  compile_def expression_def run_unfold advance_eq getRule_simps ParseRule_row_def
  Precedence_defs number_def literal_def binary_emit_def unary_emit_def emitConstant_def
  makeConstant_def addConstant_def UINT8_MAX_def emitBytes_def emitByte_def writeChunk_def
  consume_def errorAtCurrent_def endCompiler_def emitReturn_def empty_Chunk_def
  eof_Token_def Let_def eval_nat_numeral

lemmas initial_Globals_eval = initial_Globals_def zero_Parser_def zero_Token_def


section \<open>The parser driver: \<open>consume\<close> and \<open>compile\<close>\<close>

text \<open>
  Claim C1. The claim: when the current token's type differs from the expected one,
  \<^verbatim>\<open>consume\<close> records a compile error at the current token (\<^verbatim>\<open>hadError\<close> becomes true)
  and does not consume the token; so \<^verbatim>\<open>compile("(1 + 2")\<close> fails with the unmatched
  parenthesis reported. What the code does at that input: the scanner yields
  \<^verbatim>\<open>( 1 + 2\<close> and then the end of input; \<^verbatim>\<open>grouping\<close> calls \<^verbatim>\<open>consume(TOKEN_RIGHT_PAREN, ...)\<close>
  with the end-of-input token current, which leaves the globals as they are, because
  the body of \<^verbatim>\<open>errorAtCurrent\<close> is empty; \<^verbatim>\<open>compile\<close> returns true, \<^verbatim>\<open>hadError\<close> is false
  and nothing has been written to the diagnostic stream.
\<close>

theorem compile_unclosed_paren_reports_nothing:
  "consume TOKEN_RIGHT_PAREN ''Expected ')' after expression.''
     (initial_Globals\<lparr>parser := zero_Parser\<lparr>current := eof_Token 1\<rparr>\<rparr>)
     = initial_Globals\<lparr>parser := zero_Parser\<lparr>current := eof_Token 1\<rparr>\<rparr>
   \<and> (\<exists>g'. compile 9 env
         \<lparr>pending = [\<lparr>type = TOKEN_LEFT_PAREN, start = ''(1 + 2'', length_Token = 1, line = 1\<rparr>,
                     \<lparr>type = TOKEN_NUMBER, start = ''1 + 2'', length_Token = 1, line = 1\<rparr>,
                     \<lparr>type = TOKEN_PLUS, start = ''+ 2'', length_Token = 1, line = 1\<rparr>,
                     \<lparr>type = TOKEN_NUMBER, start = ''2'', length_Token = 1, line = 1\<rparr>],
          eof_line = 1\<rparr> empty_Chunk initial_Globals = Some (Inr (True, g'))
        \<and> \<not> hadError (parser g') \<and> stderr g' = [])"
  by (simp add: compile_eval initial_Globals_eval)

text \<open>
  Claim C2. The claim: every call of \<^verbatim>\<open>compile\<close> resets \<^verbatim>\<open>hadError\<close> and \<^verbatim>\<open>panicMode\<close> at
  entry, so its result reflects only the errors of that compilation. What the code does:
  \<^verbatim>\<open>compile\<close> assigns no field of \<^verbatim>\<open>parser\<close>. In one process, compile the empty source
  (it fails with "Expected expression") and then the source \<^verbatim>\<open>1\<close>: the second call
  returns false although it writes no diagnostic, while the same source compiled by a
  process that has not compiled before returns true.
\<close>

theorem compile_keeps_earlier_error:
  "\<exists>g1 g2 g3.
     compile 9 env \<lparr>pending = [], eof_line = 1\<rparr> empty_Chunk initial_Globals
       = Some (Inr (False, g1))
   \<and> compile 9 env
       \<lparr>pending = [\<lparr>type = TOKEN_NUMBER, start = ''1'', length_Token = 1, line = 1\<rparr>],
        eof_line = 1\<rparr> empty_Chunk g1 = Some (Inr (False, g2))
   \<and> stderr g2 = stderr g1
   \<and> compile 9 env
       \<lparr>pending = [\<lparr>type = TOKEN_NUMBER, start = ''1'', length_Token = 1, line = 1\<rparr>],
        eof_line = 1\<rparr> empty_Chunk initial_Globals = Some (Inr (True, g3))"
  by (simp add: compile_eval initial_Globals_eval error_def errorAt_def)


section \<open>Precedence climbing\<close>

lemma compile_sum_product:
  assumes "map type [ta, tb, tc, td, te] =
             [TOKEN_NUMBER, TOKEN_PLUS, TOKEN_NUMBER, TOKEN_STAR, TOKEN_NUMBER]"
  shows "\<exists>b g'. compile 9 env \<lparr>pending = [ta, tb, tc, td, te], eof_line = le\<rparr> empty_Chunk g
                  = Some (Inr (b, g'))
         \<and> code (compilingChunk g') =
             [opcode env OP_CONSTANT, 0, opcode env OP_CONSTANT, 1, opcode env OP_CONSTANT, 2,
              opcode env OP_MULT, opcode env OP_ADD, opcode env OP_RETURN]
         \<and> constants (compilingChunk g') =
             [NUMBER_VAL (strtod env (start ta)), NUMBER_VAL (strtod env (start tc)),
              NUMBER_VAL (strtod env (start te))]"
  using assms by (simp add: compile_eval)

lemma compile_group_product:
  assumes "map type [ta, tb, tc, td, te, tf, tg] =
             [TOKEN_LEFT_PAREN, TOKEN_NUMBER, TOKEN_PLUS, TOKEN_NUMBER, TOKEN_RIGHT_PAREN,
              TOKEN_STAR, TOKEN_NUMBER]"
  shows "\<exists>b g'. compile 9 env \<lparr>pending = [ta, tb, tc, td, te, tf, tg], eof_line = le\<rparr>
                  empty_Chunk g = Some (Inr (b, g'))
         \<and> code (compilingChunk g') =
             [opcode env OP_CONSTANT, 0, opcode env OP_CONSTANT, 1, opcode env OP_ADD,
              opcode env OP_CONSTANT, 2, opcode env OP_MULT, opcode env OP_RETURN]
         \<and> constants (compilingChunk g') =
             [NUMBER_VAL (strtod env (start tb)), NUMBER_VAL (strtod env (start td)),
              NUMBER_VAL (strtod env (start tg))]"
  using assms by (simp add: compile_eval)

lemma compile_sum_sum:
  assumes "map type [ta, tb, tc, td, te] =
             [TOKEN_NUMBER, TOKEN_PLUS, TOKEN_NUMBER, TOKEN_PLUS, TOKEN_NUMBER]"
  shows "\<exists>b g'. compile 9 env \<lparr>pending = [ta, tb, tc, td, te], eof_line = le\<rparr> empty_Chunk g
                  = Some (Inr (b, g'))
         \<and> code (compilingChunk g') =
             [opcode env OP_CONSTANT, 0, opcode env OP_CONSTANT, 1, opcode env OP_ADD,
              opcode env OP_CONSTANT, 2, opcode env OP_ADD, opcode env OP_RETURN]
         \<and> constants (compilingChunk g') =
             [NUMBER_VAL (strtod env (start ta)), NUMBER_VAL (strtod env (start tc)),
              NUMBER_VAL (strtod env (start te))]"
  using assms by (simp add: compile_eval)

lemma compile_enough_fuel:
  assumes "\<exists>b g'. compile k env src c g = Some (Inr (b, g')) \<and> P g'" and "k \<le> n"
  shows "\<exists>b g'. compile n env src c g = Some (Inr (b, g')) \<and> P g'"
proof -
  from assms(1) obtain b g' where r: "compile k env src c g = Some (Inr (b, g'))" and "P g'"
    by blast
  from r assms(2) have "compile n env src c g = Some (Inr (b, g'))" by (rule compile_fuel_mono)
  with \<open>P g'\<close> show ?thesis by blast
qed

text \<open>
  Claim C5. With fuel for the run (9 units are enough), for any tokens of the types
  of \<^verbatim>\<open>1 + 2 * 3\<close>, whatever their lexemes and lines, and any globals and opcode numbers:
  \<^verbatim>\<open>compile\<close> returns, the code is three constant loads with the indices 0, 1, 2, then
  the multiply opcode, then the add opcode, then the return opcode, and the pool holds
  the values of the three number tokens in source order. For the types of
  \<^verbatim>\<open>(1 + 2) * 3\<close> the add opcode comes before the third load and the multiply opcode.
  For the types of \<^verbatim>\<open>1 + 2 + 3\<close> the add for the first two operands is emitted before
  the third load and the second add: the grouping is \<^verbatim>\<open>(1+2)+3\<close>, since \<^verbatim>\<open>binary\<close>
  compiles its right operand at its own precedence plus one.
\<close>

theorem compile_precedence_grouping_associativity:
  assumes "9 \<le> n"
  shows
    "(map type [ta, tb, tc, td, te] =
        [TOKEN_NUMBER, TOKEN_PLUS, TOKEN_NUMBER, TOKEN_STAR, TOKEN_NUMBER] \<longrightarrow>
      (\<exists>b g'. compile n env \<lparr>pending = [ta, tb, tc, td, te], eof_line = le\<rparr> empty_Chunk g
                 = Some (Inr (b, g'))
        \<and> code (compilingChunk g') =
            [opcode env OP_CONSTANT, 0, opcode env OP_CONSTANT, 1, opcode env OP_CONSTANT, 2,
             opcode env OP_MULT, opcode env OP_ADD, opcode env OP_RETURN]
        \<and> constants (compilingChunk g') =
            [NUMBER_VAL (strtod env (start ta)), NUMBER_VAL (strtod env (start tc)),
             NUMBER_VAL (strtod env (start te))]))
   \<and> (map type [ta, tb, tc, td, te, tf, tg] =
        [TOKEN_LEFT_PAREN, TOKEN_NUMBER, TOKEN_PLUS, TOKEN_NUMBER, TOKEN_RIGHT_PAREN,
         TOKEN_STAR, TOKEN_NUMBER] \<longrightarrow>
      (\<exists>b g'. compile n env \<lparr>pending = [ta, tb, tc, td, te, tf, tg], eof_line = le\<rparr>
                 empty_Chunk g = Some (Inr (b, g'))
        \<and> code (compilingChunk g') =
            [opcode env OP_CONSTANT, 0, opcode env OP_CONSTANT, 1, opcode env OP_ADD,
             opcode env OP_CONSTANT, 2, opcode env OP_MULT, opcode env OP_RETURN]
        \<and> constants (compilingChunk g') =
            [NUMBER_VAL (strtod env (start tb)), NUMBER_VAL (strtod env (start td)),
             NUMBER_VAL (strtod env (start tg))]))
   \<and> (map type [ta, tb, tc, td, te] =
        [TOKEN_NUMBER, TOKEN_PLUS, TOKEN_NUMBER, TOKEN_PLUS, TOKEN_NUMBER] \<longrightarrow>
      (\<exists>b g'. compile n env \<lparr>pending = [ta, tb, tc, td, te], eof_line = le\<rparr> empty_Chunk g
                 = Some (Inr (b, g'))
        \<and> code (compilingChunk g') =
            [opcode env OP_CONSTANT, 0, opcode env OP_CONSTANT, 1, opcode env OP_ADD,
             opcode env OP_CONSTANT, 2, opcode env OP_ADD, opcode env OP_RETURN]
        \<and> constants (compilingChunk g') =
            [NUMBER_VAL (strtod env (start ta)), NUMBER_VAL (strtod env (start tc)),
             NUMBER_VAL (strtod env (start te))]))"
proof (intro conjI impI)
  assume "map type [ta, tb, tc, td, te] =
            [TOKEN_NUMBER, TOKEN_PLUS, TOKEN_NUMBER, TOKEN_STAR, TOKEN_NUMBER]"
  from compile_sum_product[OF this] assms
  show "\<exists>b g'. compile n env \<lparr>pending = [ta, tb, tc, td, te], eof_line = le\<rparr> empty_Chunk g
                 = Some (Inr (b, g'))
        \<and> code (compilingChunk g') =
            [opcode env OP_CONSTANT, 0, opcode env OP_CONSTANT, 1, opcode env OP_CONSTANT, 2,
             opcode env OP_MULT, opcode env OP_ADD, opcode env OP_RETURN]
        \<and> constants (compilingChunk g') =
            [NUMBER_VAL (strtod env (start ta)), NUMBER_VAL (strtod env (start tc)),
             NUMBER_VAL (strtod env (start te))]"
    by (rule compile_enough_fuel)
next
  assume "map type [ta, tb, tc, td, te, tf, tg] =
            [TOKEN_LEFT_PAREN, TOKEN_NUMBER, TOKEN_PLUS, TOKEN_NUMBER, TOKEN_RIGHT_PAREN,
             TOKEN_STAR, TOKEN_NUMBER]"
  from compile_group_product[OF this] assms
  show "\<exists>b g'. compile n env \<lparr>pending = [ta, tb, tc, td, te, tf, tg], eof_line = le\<rparr>
                 empty_Chunk g = Some (Inr (b, g'))
        \<and> code (compilingChunk g') =
            [opcode env OP_CONSTANT, 0, opcode env OP_CONSTANT, 1, opcode env OP_ADD,
             opcode env OP_CONSTANT, 2, opcode env OP_MULT, opcode env OP_RETURN]
        \<and> constants (compilingChunk g') =
            [NUMBER_VAL (strtod env (start tb)), NUMBER_VAL (strtod env (start td)),
             NUMBER_VAL (strtod env (start tg))]"
    by (rule compile_enough_fuel)
next
  assume "map type [ta, tb, tc, td, te] =
            [TOKEN_NUMBER, TOKEN_PLUS, TOKEN_NUMBER, TOKEN_PLUS, TOKEN_NUMBER]"
  from compile_sum_sum[OF this] assms
  show "\<exists>b g'. compile n env \<lparr>pending = [ta, tb, tc, td, te], eof_line = le\<rparr> empty_Chunk g
                 = Some (Inr (b, g'))
        \<and> code (compilingChunk g') =
            [opcode env OP_CONSTANT, 0, opcode env OP_CONSTANT, 1, opcode env OP_ADD,
             opcode env OP_CONSTANT, 2, opcode env OP_ADD, opcode env OP_RETURN]
        \<and> constants (compilingChunk g') =
            [NUMBER_VAL (strtod env (start ta)), NUMBER_VAL (strtod env (start tc)),
             NUMBER_VAL (strtod env (start te))]"
    by (rule compile_enough_fuel)
qed

theorem compile_precedence_grouping_associativity_witness:
  "\<forall>env :: int Env.
     (9::nat) \<le> 9
   \<and> map type
         [\<lparr>type = TOKEN_NUMBER, start = ''1 + 2 * 3'', length_Token = 1, line = 1\<rparr>,
          \<lparr>type = TOKEN_PLUS, start = ''+ 2 * 3'', length_Token = 1, line = 1\<rparr>,
          \<lparr>type = TOKEN_NUMBER, start = ''2 * 3'', length_Token = 1, line = 1\<rparr>,
          \<lparr>type = TOKEN_STAR, start = ''* 3'', length_Token = 1, line = 1\<rparr>,
          \<lparr>type = TOKEN_NUMBER, start = ''3'', length_Token = 1, line = 1\<rparr>]
       = [TOKEN_NUMBER, TOKEN_PLUS, TOKEN_NUMBER, TOKEN_STAR, TOKEN_NUMBER]
   \<and> (\<exists>b g'. compile 9 env
         \<lparr>pending =
         [\<lparr>type = TOKEN_NUMBER, start = ''1 + 2 * 3'', length_Token = 1, line = 1\<rparr>,
          \<lparr>type = TOKEN_PLUS, start = ''+ 2 * 3'', length_Token = 1, line = 1\<rparr>,
          \<lparr>type = TOKEN_NUMBER, start = ''2 * 3'', length_Token = 1, line = 1\<rparr>,
          \<lparr>type = TOKEN_STAR, start = ''* 3'', length_Token = 1, line = 1\<rparr>,
          \<lparr>type = TOKEN_NUMBER, start = ''3'', length_Token = 1, line = 1\<rparr>],
          eof_line = 1\<rparr> empty_Chunk initial_Globals = Some (Inr (b, g'))
        \<and> code (compilingChunk g') = [opcode env OP_CONSTANT, 0, opcode env OP_CONSTANT, 1, opcode env OP_CONSTANT, 2, opcode env OP_MULT, opcode env OP_ADD, opcode env OP_RETURN]
        \<and> constants (compilingChunk g') =
            [NUMBER_VAL (strtod env ''1 + 2 * 3''), NUMBER_VAL (strtod env ''2 * 3''),
             NUMBER_VAL (strtod env ''3'')])
   \<and> map type
         [\<lparr>type = TOKEN_LEFT_PAREN, start = ''(1 + 2) * 3'', length_Token = 1, line = 1\<rparr>,
          \<lparr>type = TOKEN_NUMBER, start = ''1 + 2) * 3'', length_Token = 1, line = 1\<rparr>,
          \<lparr>type = TOKEN_PLUS, start = ''+ 2) * 3'', length_Token = 1, line = 1\<rparr>,
          \<lparr>type = TOKEN_NUMBER, start = ''2) * 3'', length_Token = 1, line = 1\<rparr>,
          \<lparr>type = TOKEN_RIGHT_PAREN, start = '') * 3'', length_Token = 1, line = 1\<rparr>,
          \<lparr>type = TOKEN_STAR, start = ''* 3'', length_Token = 1, line = 1\<rparr>,
          \<lparr>type = TOKEN_NUMBER, start = ''3'', length_Token = 1, line = 1\<rparr>]
       = [TOKEN_LEFT_PAREN, TOKEN_NUMBER, TOKEN_PLUS, TOKEN_NUMBER, TOKEN_RIGHT_PAREN,
          TOKEN_STAR, TOKEN_NUMBER]
   \<and> (\<exists>b g'. compile 9 env
         \<lparr>pending =
         [\<lparr>type = TOKEN_LEFT_PAREN, start = ''(1 + 2) * 3'', length_Token = 1, line = 1\<rparr>,
          \<lparr>type = TOKEN_NUMBER, start = ''1 + 2) * 3'', length_Token = 1, line = 1\<rparr>,
          \<lparr>type = TOKEN_PLUS, start = ''+ 2) * 3'', length_Token = 1, line = 1\<rparr>,
          \<lparr>type = TOKEN_NUMBER, start = ''2) * 3'', length_Token = 1, line = 1\<rparr>,
          \<lparr>type = TOKEN_RIGHT_PAREN, start = '') * 3'', length_Token = 1, line = 1\<rparr>,
          \<lparr>type = TOKEN_STAR, start = ''* 3'', length_Token = 1, line = 1\<rparr>,
          \<lparr>type = TOKEN_NUMBER, start = ''3'', length_Token = 1, line = 1\<rparr>],
          eof_line = 1\<rparr> empty_Chunk initial_Globals = Some (Inr (b, g'))
        \<and> code (compilingChunk g') = [opcode env OP_CONSTANT, 0, opcode env OP_CONSTANT, 1, opcode env OP_ADD, opcode env OP_CONSTANT, 2, opcode env OP_MULT, opcode env OP_RETURN]
        \<and> constants (compilingChunk g') =
            [NUMBER_VAL (strtod env ''1 + 2) * 3''), NUMBER_VAL (strtod env ''2) * 3''),
             NUMBER_VAL (strtod env ''3'')])
   \<and> map type
         [\<lparr>type = TOKEN_NUMBER, start = ''1 + 2 + 3'', length_Token = 1, line = 1\<rparr>,
          \<lparr>type = TOKEN_PLUS, start = ''+ 2 + 3'', length_Token = 1, line = 1\<rparr>,
          \<lparr>type = TOKEN_NUMBER, start = ''2 + 3'', length_Token = 1, line = 1\<rparr>,
          \<lparr>type = TOKEN_PLUS, start = ''+ 3'', length_Token = 1, line = 1\<rparr>,
          \<lparr>type = TOKEN_NUMBER, start = ''3'', length_Token = 1, line = 1\<rparr>]
       = [TOKEN_NUMBER, TOKEN_PLUS, TOKEN_NUMBER, TOKEN_PLUS, TOKEN_NUMBER]
   \<and> (\<exists>b g'. compile 9 env
         \<lparr>pending =
         [\<lparr>type = TOKEN_NUMBER, start = ''1 + 2 + 3'', length_Token = 1, line = 1\<rparr>,
          \<lparr>type = TOKEN_PLUS, start = ''+ 2 + 3'', length_Token = 1, line = 1\<rparr>,
          \<lparr>type = TOKEN_NUMBER, start = ''2 + 3'', length_Token = 1, line = 1\<rparr>,
          \<lparr>type = TOKEN_PLUS, start = ''+ 3'', length_Token = 1, line = 1\<rparr>,
          \<lparr>type = TOKEN_NUMBER, start = ''3'', length_Token = 1, line = 1\<rparr>],
          eof_line = 1\<rparr> empty_Chunk initial_Globals = Some (Inr (b, g'))
        \<and> code (compilingChunk g') = [opcode env OP_CONSTANT, 0, opcode env OP_CONSTANT, 1, opcode env OP_ADD, opcode env OP_CONSTANT, 2, opcode env OP_ADD, opcode env OP_RETURN]
        \<and> constants (compilingChunk g') =
            [NUMBER_VAL (strtod env ''1 + 2 + 3''), NUMBER_VAL (strtod env ''2 + 3''),
             NUMBER_VAL (strtod env ''3'')])"
  using
    compile_precedence_grouping_associativity
      [where n = 9 and g = "initial_Globals :: int Globals" and le = 1
        and ta = "\<lparr>type = TOKEN_NUMBER, start = ''1 + 2 * 3'', length_Token = 1, line = 1\<rparr>"
        and tb = "\<lparr>type = TOKEN_PLUS, start = ''+ 2 * 3'', length_Token = 1, line = 1\<rparr>"
        and tc = "\<lparr>type = TOKEN_NUMBER, start = ''2 * 3'', length_Token = 1, line = 1\<rparr>"
        and td = "\<lparr>type = TOKEN_STAR, start = ''* 3'', length_Token = 1, line = 1\<rparr>"
        and te = "\<lparr>type = TOKEN_NUMBER, start = ''3'', length_Token = 1, line = 1\<rparr>"]
    compile_precedence_grouping_associativity
      [where n = 9 and g = "initial_Globals :: int Globals" and le = 1
        and ta = "\<lparr>type = TOKEN_LEFT_PAREN, start = ''(1 + 2) * 3'', length_Token = 1, line = 1\<rparr>"
        and tb = "\<lparr>type = TOKEN_NUMBER, start = ''1 + 2) * 3'', length_Token = 1, line = 1\<rparr>"
        and tc = "\<lparr>type = TOKEN_PLUS, start = ''+ 2) * 3'', length_Token = 1, line = 1\<rparr>"
        and td = "\<lparr>type = TOKEN_NUMBER, start = ''2) * 3'', length_Token = 1, line = 1\<rparr>"
        and te = "\<lparr>type = TOKEN_RIGHT_PAREN, start = '') * 3'', length_Token = 1, line = 1\<rparr>"
        and tf = "\<lparr>type = TOKEN_STAR, start = ''* 3'', length_Token = 1, line = 1\<rparr>"
        and tg = "\<lparr>type = TOKEN_NUMBER, start = ''3'', length_Token = 1, line = 1\<rparr>"]
    compile_precedence_grouping_associativity
      [where n = 9 and g = "initial_Globals :: int Globals" and le = 1
        and ta = "\<lparr>type = TOKEN_NUMBER, start = ''1 + 2 + 3'', length_Token = 1, line = 1\<rparr>"
        and tb = "\<lparr>type = TOKEN_PLUS, start = ''+ 2 + 3'', length_Token = 1, line = 1\<rparr>"
        and tc = "\<lparr>type = TOKEN_NUMBER, start = ''2 + 3'', length_Token = 1, line = 1\<rparr>"
        and td = "\<lparr>type = TOKEN_PLUS, start = ''+ 3'', length_Token = 1, line = 1\<rparr>"
        and te = "\<lparr>type = TOKEN_NUMBER, start = ''3'', length_Token = 1, line = 1\<rparr>"]
  by simp


text \<open>
  Claim C9. The claim: \<^verbatim>\<open>compile("-3")\<close> succeeds, and the code is exactly the
  constant-load opcode, the pool index of the number, the negate opcode and the return
  opcode. What the code does, for any minus token followed by any number token and the
  end of input, from any globals and with fuel for the run (5 units or more): it emits
  exactly these four bytes, with the pool index 0 and the pool holding the value of the
  number token only, and writes no diagnostic; but the value it returns is the negation
  of the \<^verbatim>\<open>hadError\<close> flag it was entered with, which \<^verbatim>\<open>compile\<close> never resets. So in a
  process that has compiled the empty source before (which fails), \<^verbatim>\<open>compile("-3")\<close>
  emits the four bytes and returns false; in a process that has not compiled before it
  returns true.
\<close>

theorem compile_negated_number:
  "(\<exists>g'. compile (Suc (Suc (Suc (Suc (Suc n))))) env
           \<lparr>pending = [\<lparr>type = TOKEN_MINUS, start = sa, length_Token = la, line = lna\<rparr>,
                       \<lparr>type = TOKEN_NUMBER, start = sb, length_Token = lb, line = lnb\<rparr>],
            eof_line = le\<rparr> empty_Chunk g = Some (Inr (\<not> hadError (parser g), g'))
         \<and> code (compilingChunk g') =
             [opcode env OP_CONSTANT, 0, opcode env OP_NEGATE, opcode env OP_RETURN]
         \<and> constants (compilingChunk g') = [NUMBER_VAL (strtod env sb)]
         \<and> stderr g' = stderr g)
   \<and> (\<exists>g1 g2.
         compile 5 env \<lparr>pending = [], eof_line = 1\<rparr> empty_Chunk initial_Globals
           = Some (Inr (False, g1))
       \<and> compile 5 env
           \<lparr>pending = [\<lparr>type = TOKEN_MINUS, start = ''-3'', length_Token = 1, line = 1\<rparr>,
                       \<lparr>type = TOKEN_NUMBER, start = ''3'', length_Token = 1, line = 1\<rparr>],
            eof_line = 1\<rparr> empty_Chunk g1 = Some (Inr (False, g2))
       \<and> code (compilingChunk g2) =
           [opcode env OP_CONSTANT, 0, opcode env OP_NEGATE, opcode env OP_RETURN]
       \<and> stderr g2 = stderr g1)
   \<and> (\<exists>g3.
         compile 5 env
           \<lparr>pending = [\<lparr>type = TOKEN_MINUS, start = ''-3'', length_Token = 1, line = 1\<rparr>,
                       \<lparr>type = TOKEN_NUMBER, start = ''3'', length_Token = 1, line = 1\<rparr>],
            eof_line = 1\<rparr> empty_Chunk initial_Globals = Some (Inr (True, g3))
       \<and> code (compilingChunk g3) =
           [opcode env OP_CONSTANT, 0, opcode env OP_NEGATE, opcode env OP_RETURN])"
  by (simp add: compile_eval initial_Globals_eval error_def errorAt_def)


section \<open>The rule table and the infix dispatch\<close>

text \<open>
  With the threshold \<^verbatim>\<open>PREC_NONE\<close> the guard of the loop holds for every token, and
  the loop calls the NULL infix pointer of the end-of-input token.
\<close>

lemma parsePrecedence_PREC_NONE_calls_null:
  "parsePrecedence 3 env PREC_NONE
     (initial_Globals\<lparr>parser := zero_Parser\<lparr>current :=
        \<lparr>type = TOKEN_NUMBER, start = ''1'', length_Token = 1, line = 1\<rparr>\<rparr>\<rparr>)
     = Some (Inl NullFunctionCall)"
  by (simp add: parsePrecedence_def compile_eval initial_Globals_eval)

text \<open>
  Claim C10. Every token type whose row of \<^verbatim>\<open>rules\<close> has a precedence above
  \<^verbatim>\<open>PREC_NONE\<close> has an infix function in that row. And a call of \<^verbatim>\<open>parsePrecedence\<close> with a
  threshold of \<^verbatim>\<open>PREC_ASSIGN\<close> or higher never ends in the call of a NULL function pointer,
  whatever the fuel, the tokens and the globals: the only such call in the model is the
  infix dispatch of the loop, in that call and in every call nested in it.
\<close>

theorem infix_dispatch_never_null:
  "(PREC_NONE < precedence (getRule t) \<longrightarrow> infixRule (getRule t) \<noteq> None)
   \<and> (PREC_ASSIGN \<le> prec \<longrightarrow> parsePrecedence n env prec g \<noteq> Some (Inl NullFunctionCall))"
proof (intro conjI impI)
  assume "PREC_NONE < precedence (getRule t)"
  then show "infixRule (getRule t) \<noteq> None" by (rule getRule_infixRule)
next
  assume "PREC_ASSIGN \<le> prec"
  then show "parsePrecedence n env prec g \<noteq> Some (Inl NullFunctionCall)"
    unfolding parsePrecedence_def by (intro run_no_crash) simp
qed

theorem infix_dispatch_never_null_witness:
  "\<forall>env :: int Env.
     PREC_NONE < precedence (getRule TOKEN_STAR) \<and> infixRule (getRule TOKEN_STAR) \<noteq> None
   \<and> PREC_ASSIGN \<le> PREC_TERM
   \<and> parsePrecedence 9 env PREC_TERM
        (initial_Globals\<lparr>parser := zero_Parser\<lparr>current :=
           \<lparr>type = TOKEN_NUMBER, start = ''1 * 2'', length_Token = 1, line = 1\<rparr>\<rparr>,
          scanner := \<lparr>pending =
            [\<lparr>type = TOKEN_STAR, start = ''* 2'', length_Token = 1, line = 1\<rparr>,
             \<lparr>type = TOKEN_NUMBER, start = ''2'', length_Token = 1, line = 1\<rparr>],
            eof_line = 1\<rparr>\<rparr>)
       \<noteq> Some (Inl NullFunctionCall)"
proof
  fix env :: "int Env"
  show "PREC_NONE < precedence (getRule TOKEN_STAR) \<and> infixRule (getRule TOKEN_STAR) \<noteq> None
   \<and> PREC_ASSIGN \<le> PREC_TERM
   \<and> parsePrecedence 9 env PREC_TERM
        (initial_Globals\<lparr>parser := zero_Parser\<lparr>current :=
           \<lparr>type = TOKEN_NUMBER, start = ''1 * 2'', length_Token = 1, line = 1\<rparr>\<rparr>,
          scanner := \<lparr>pending =
            [\<lparr>type = TOKEN_STAR, start = ''* 2'', length_Token = 1, line = 1\<rparr>,
             \<lparr>type = TOKEN_NUMBER, start = ''2'', length_Token = 1, line = 1\<rparr>],
            eof_line = 1\<rparr>\<rparr>)
       \<noteq> Some (Inl NullFunctionCall)"
    using infix_dispatch_never_null [where t = TOKEN_STAR and prec = PREC_TERM and n = 9
        and env = env
        and g = "initial_Globals\<lparr>parser := zero_Parser\<lparr>current :=
           \<lparr>type = TOKEN_NUMBER, start = ''1 * 2'', length_Token = 1, line = 1\<rparr>\<rparr>,
          scanner := \<lparr>pending =
            [\<lparr>type = TOKEN_STAR, start = ''* 2'', length_Token = 1, line = 1\<rparr>,
             \<lparr>type = TOKEN_NUMBER, start = ''2'', length_Token = 1, line = 1\<rparr>],
            eof_line = 1\<rparr>\<rparr>"]
    by (simp add: getRule_simps ParseRule_row_def Precedence_defs)
qed


section \<open>Constant-pool overflow\<close>

text \<open>
  Claim C8, as stated: whenever the new constant's index is greater than 255,
  compilation reports the error "Too many constants in one chunk." It fails in panic
  mode: after an earlier error in the same compilation (here "Expected expression") the
  pool holds 256 constants; \<^verbatim>\<open>makeConstant\<close> returns 0 and \<^verbatim>\<open>error\<close> returns at once,
  so the diagnostic stream still holds the earlier message only.
\<close>

theorem makeConstant_overflow_in_panic_mode_counterexample:
  "(let g = error ''Expected expression''
              ((initial_Globals :: int Globals)\<lparr>compilingChunk :=
                 \<lparr>code = [], lines = [], constants = replicate 256 (NUMBER_VAL 0)\<rparr>\<rparr>);
        r = makeConstant (NUMBER_VAL 0) g
    in panicMode (parser g)
       \<and> fst r = 0
       \<and> stderr (snd r) = stderr g
       \<and> map (\<lambda>d. snd (snd d)) (stderr (snd r)) = [''Expected expression''])"
  by (simp add: Let_def makeConstant_def addConstant_def UINT8_MAX_def error_def errorAt_def
      initial_Globals_eval)

text \<open>
  Claim C8, amended. When the pool already holds more than 255 constants, so that the
  new constant's index is greater than 255: \<^verbatim>\<open>makeConstant\<close> returns the index 0 and
  \<^verbatim>\<open>emitConstant\<close> appends exactly the constant-load opcode and the byte 0 to the code
  (the constant itself is appended to the pool). The error goes through \<^verbatim>\<open>error\<close>: unless
  panic mode is already set, the message "Too many constants in one chunk." is added to
  the diagnostic stream and \<^verbatim>\<open>hadError\<close> and \<^verbatim>\<open>panicMode\<close> are set; in panic mode the
  parser state and the stream are unchanged. Either way the call returns with the token
  cursor and the scanner untouched, so parsing goes on.
\<close>

theorem makeConstant_overflow:
  assumes "255 < length (constants (compilingChunk g))"
  shows "fst (makeConstant v g) = 0
       \<and> code (compilingChunk (emitConstant env v g))
           = code (compilingChunk g) @ [opcode env OP_CONSTANT, 0]
       \<and> constants (compilingChunk (emitConstant env v g)) = constants (compilingChunk g) @ [v]
       \<and> (if panicMode (parser g)
          then parser (emitConstant env v g) = parser g
             \<and> stderr (emitConstant env v g) = stderr g
          else hadError (parser (emitConstant env v g))
             \<and> panicMode (parser (emitConstant env v g))
             \<and> map (\<lambda>d. snd (snd d)) (stderr (emitConstant env v g))
                 = map (\<lambda>d. snd (snd d)) (stderr g) @ [''Too many constants in one chunk.''])
       \<and> previous (parser (emitConstant env v g)) = previous (parser g)
       \<and> current (parser (emitConstant env v g)) = current (parser g)
       \<and> scanner (emitConstant env v g) = scanner g"
  using assms
  by (simp add: emitConstant_def makeConstant_def addConstant_def UINT8_MAX_def error_def
      errorAt_def emitBytes_def emitByte_def writeChunk_def Let_def)

theorem makeConstant_overflow_witness:
  "\<forall>env :: int Env.
   (let g = (initial_Globals :: int Globals)\<lparr>compilingChunk :=
              \<lparr>code = [], lines = [], constants = replicate 256 (NUMBER_VAL 0)\<rparr>\<rparr>;
        g' = emitConstant env (NUMBER_VAL 7) g
    in 255 < length (constants (compilingChunk g))
       \<and> fst (makeConstant (NUMBER_VAL 7) g) = 0
       \<and> code (compilingChunk g') = [opcode env OP_CONSTANT, 0]
       \<and> hadError (parser g')
       \<and> map (\<lambda>d. snd (snd d)) (stderr g') = [''Too many constants in one chunk.''])"
  using makeConstant_overflow [where v = "NUMBER_VAL 7"
      and g = "(initial_Globals :: int Globals)\<lparr>compilingChunk :=
              \<lparr>code = [], lines = [], constants = replicate 256 (NUMBER_VAL 0)\<rparr>\<rparr>"]
  by (simp add: Let_def initial_Globals_eval)

section \<open>The Value type\<close>

text \<open>
  Claim C4, as stated: Value has exactly the four variants Bool, Nil, Number and
  Object. In value.h the enum \<^verbatim>\<open>ValueType\<close> has three enumerators and the union two
  members, \<^verbatim>\<open>boolean\<close> and \<^verbatim>\<open>number\<close>: there are three tags, and no value is anything but
  a Bool, a Nil or a Number.
\<close>

theorem Value_four_variants_counterexample:
  "card (UNIV :: ValueType set) = 3
   \<and> \<not> (\<exists>v :: int Value. \<not> IS_BOOL v \<and> \<not> IS_NIL v \<and> \<not> IS_NUMBER v)"
proof -
  have u: "(UNIV :: ValueType set) = {VAL_BOOL, VAL_NIL, VAL_NUMBER}"
    by (auto intro: ValueType.exhaust)
  have "card (UNIV :: ValueType set) = card {VAL_BOOL, VAL_NIL, VAL_NUMBER}"
    by (simp only: u)
  also have "\<dots> = 3" by simp
  finally have "card (UNIV :: ValueType set) = 3" .
  moreover have "IS_BOOL v \<or> IS_NIL v \<or> IS_NUMBER v" for v :: "int Value"
    by (cases "type_Value v") (simp_all add: IS_BOOL_def IS_NIL_def IS_NUMBER_def)
  ultimately show ?thesis by blast
qed

text \<open>
  Claim C4, amended. Value is a tagged union with exactly the three variants Bool, Nil
  and Number: every value has exactly one of the three tags. \<^verbatim>\<open>BOOL_VAL\<close> and
  \<^verbatim>\<open>NUMBER_VAL\<close> set the tag of their variant and store the payload in the union member
  of that variant; \<^verbatim>\<open>NIL_VAL\<close> sets the tag \<^verbatim>\<open>VAL_NIL\<close> (and stores the number 0).
\<close>

theorem Value_three_variants:
  "(if IS_BOOL v then \<not> IS_NIL v \<and> \<not> IS_NUMBER v else IS_NIL v \<noteq> IS_NUMBER v)
   \<and> IS_BOOL (BOOL_VAL b) \<and> as (BOOL_VAL b) = boolean b
   \<and> IS_NUMBER (NUMBER_VAL n) \<and> as (NUMBER_VAL n) = ValueAs.number n
   \<and> IS_NIL NIL_VAL \<and> as NIL_VAL = ValueAs.number 0"
  by (cases "type_Value v")
     (simp_all add: IS_BOOL_def IS_NIL_def IS_NUMBER_def BOOL_VAL_def NUMBER_VAL_def NIL_VAL_def)


section \<open>Strings\<close>

lemma hashString_loop_numeral:
  "hashString_loop sg [] (numeral k) h = Inl OutOfBounds"
  "hashString_loop sg (c # key) (numeral k) h =
     hashString_loop sg key (pred_numeral k) ((h XOR char_to_uint32 sg c) * 16777619)"
  by (simp_all add: numeral_eq_Suc)

lemma writeToString_loop_numeral:
  "writeToString_loop [] dst i (numeral k) = Inl OutOfBounds"
  "writeToString_loop (c # cs) dst i (numeral k) =
     (if i < length dst then writeToString_loop cs (dst[i := c]) (Suc i) (pred_numeral k)
      else Inl OutOfBounds)"
  by (simp_all add: numeral_eq_Suc)

lemmas string_eval =
  allocateString_def takeString_def allocateObject_def xallocateObject_def reallocate_new_def
  xallocateString_def writeToString_def storeString_def validateString_def copyString_def
  tableFindString_def tableSet_def hashString_def initial_VM_def Let_def
  hashString_loop_numeral writeToString_loop_numeral upt_conv_Cons

text \<open>
  Claim C6. The claim: \<^verbatim>\<open>allocateString\<close> (and \<^verbatim>\<open>takeString\<close>) copies exactly \<open>length\<close>
  bytes of the input and hashes exactly those bytes, also when they contain a NUL byte.
  What the code does with the four input bytes \<^verbatim>\<open>'a', 0, 'b', 0\<close> and the length 3: the
  copying loop runs while \<^verbatim>\<open>chars[i]\<close> is not zero, so it copies one byte; the bytes 1
  and 2 of the new string are what the fresh block held, and the hash is taken over
  them. With a block that held the byte \<^verbatim>\<open>'X'\<close> everywhere the hash is 128354188, and the
  FNV-1a hash of the three input bytes is 284404690. And with the input \<^verbatim>\<open>"abcd"\<close> and
  the length 2 the loop writes past the three bytes allocated for the characters.
\<close>

theorem allocateString_stops_at_NUL:
  "(\<exists>vm'. allocateString sg j [0x61, 0, 0x62, 0] 3 (initial_VM :: int VM) = Inr (0, vm')
      \<and> map_option chars (heap vm' 0) = Some [0x61, junk_chars j (Suc 0), junk_chars j (Suc (Suc 0)), 0])
   \<and> (\<exists>vm'. takeString False \<lparr>junk_next = None, junk_hash = 0, junk_chars = (\<lambda>i. 0x58)\<rparr>
               [0x61, 0, 0x62, 0] 3 (initial_VM :: int VM) = Inr (0, vm')
      \<and> map_option chars (heap vm' 0) = Some [0x61, 0x58, 0x58, 0]
      \<and> map_option hash (heap vm' 0) = Some 128354188)
   \<and> FNV1a [0x61, 0, 0x62] = 284404690
   \<and> allocateString sg j [0x61, 0x62, 0x63, 0x64, 0] 2 (initial_VM :: int VM) = Inl OutOfBounds"
  by (simp add: string_eval FNV1a_def char_to_uint32_def)


text \<open>
  Claim C3. The claim: when a string of the same content is already interned,
  \<^verbatim>\<open>validateString\<close> discards the caller's instance in favour of the canonical one, and
  otherwise it registers the given instance in the intern table and the object list.
  What the code does, starting from a runtime that has allocated nothing: a first string
  \<^verbatim>\<open>"a"\<close>, made by \<^verbatim>\<open>xallocateString\<close> and \<^verbatim>\<open>writeToString\<close>, is validated and registered
  (address 0, the table's only key and the head of the object list, its \<^verbatim>\<open>next\<close> NULL).
  A second string \<^verbatim>\<open>"a"\<close> (address 1) is validated: the lookup finds the string 0, and
  \<^verbatim>\<open>storeString\<close> is called all the same, on the canonical string: its \<^verbatim>\<open>next\<close> becomes
  \<^verbatim>\<open>vm.objects\<close>, which is the string 0 itself, so the object list is now a cycle. The
  caller's instance stays allocated as it was, in neither the table nor the list.
\<close>

theorem validateString_hit_stores_again:
  "\<exists>vm1 vm2 vm3 vm4 vm5 vm6.
     xallocateString j 1 (initial_VM :: int VM) = Inr (0, vm1)
   \<and> writeToString sg 0 [0x61] vm1 = Inr vm2
   \<and> validateString 0 vm2 = Inr vm3
   \<and> strings vm3 = [(0, NIL_VAL)] \<and> objects vm3 = Some 0
   \<and> map_option next (heap vm3 0) = Some None
   \<and> xallocateString j' 1 vm3 = Inr (1, vm4)
   \<and> writeToString sg 1 [0x61] vm4 = Inr vm5
   \<and> tableFindString (heap vm5) (strings vm5) [0x61, 0] 1 (hash (the (heap vm5 1))) = Some 0
   \<and> validateString 1 vm5 = Inr vm6
   \<and> strings vm6 = [(0, NIL_VAL)] \<and> objects vm6 = Some 0
   \<and> map_option next (heap vm6 0) = Some (Some 0)
   \<and> heap vm6 1 = heap vm5 1"
  by (simp add: string_eval)










section \<open>Further properties\<close>

text \<open>
  The literals: for a \<^verbatim>\<open>true\<close>, \<^verbatim>\<open>false\<close> or \<^verbatim>\<open>nil\<close> token followed by the end of input,
  \<^verbatim>\<open>compile\<close> emits the literal's opcode and the return opcode and adds no constant; it
  returns true exactly when \<^verbatim>\<open>hadError\<close> was not set before.
\<close>

theorem compile_literals:
  "(\<exists>g'. compile (Suc (Suc (Suc n))) env
           \<lparr>pending = [\<lparr>type = TOKEN_TRUE, start = s, length_Token = l, line = ln\<rparr>],
            eof_line = le\<rparr> empty_Chunk g = Some (Inr (\<not> hadError (parser g), g'))
         \<and> code (compilingChunk g') = [opcode env OP_TRUE, opcode env OP_RETURN]
         \<and> constants (compilingChunk g') = [])
   \<and> (\<exists>g'. compile (Suc (Suc (Suc n))) env
           \<lparr>pending = [\<lparr>type = TOKEN_FALSE, start = s, length_Token = l, line = ln\<rparr>],
            eof_line = le\<rparr> empty_Chunk g = Some (Inr (\<not> hadError (parser g), g'))
         \<and> code (compilingChunk g') = [opcode env OP_FALSE, opcode env OP_RETURN]
         \<and> constants (compilingChunk g') = [])
   \<and> (\<exists>g'. compile (Suc (Suc (Suc n))) env
           \<lparr>pending = [\<lparr>type = TOKEN_NIL, start = s, length_Token = l, line = ln\<rparr>],
            eof_line = le\<rparr> empty_Chunk g = Some (Inr (\<not> hadError (parser g), g'))
         \<and> code (compilingChunk g') = [opcode env OP_NIL, opcode env OP_RETURN]
         \<and> constants (compilingChunk g') = [])"
  by (simp add: compile_eval)

text \<open>
  The empty source, in a process that has not compiled before: \<^verbatim>\<open>compile\<close> returns
  false, \<^verbatim>\<open>hadError\<close> is set, and the one diagnostic is "Expected expression" at the end
  of input; the chunk holds the return opcode only.
\<close>

theorem compile_empty_source:
  "\<exists>g'. compile (Suc (Suc n)) env \<lparr>pending = [], eof_line = le\<rparr> empty_Chunk initial_Globals
          = Some (Inr (False, g'))
       \<and> hadError (parser g')
       \<and> stderr g' = [(le, '' at end'', ''Expected expression'')]
       \<and> code (compilingChunk g') = [opcode env OP_RETURN]"
  by (simp add: compile_eval initial_Globals_eval error_def errorAt_def)

text \<open>
  \<^verbatim>\<open>validateString\<close> on a miss: when the table finds no string with the content of the
  given string object, the object becomes a key of the intern table and the head of
  the object list, linked to the former head.
\<close>

theorem validateString_miss_registers:
  assumes "heap vm a = Some s"
    and "tableFindString (heap vm) (strings vm) (chars s) (length_ObjString s) (hash s) = None"
  shows "validateString a vm =
           Inr (vm\<lparr>strings := strings vm @ [(a, NIL_VAL)],
                   heap := (heap vm)(a \<mapsto> s\<lparr>next := objects vm\<rparr>),
                   objects := Some a\<rparr>)"
proof -
  have "a \<notin> fst ` set (strings vm)"
  proof
    assume "a \<in> fst ` set (strings vm)"
    then obtain w where "(a, w) \<in> set (strings vm)" by force
    with assms show False
      by (auto simp: tableFindString_def find_None_iff)
  qed
  with assms show ?thesis
    by (simp add: validateString_def storeString_def tableSet_def Let_def)
qed

theorem validateString_miss_registers_witness:
  "(let s = \<lparr>type_Obj = OBJ_STRING, next = Some 7, length_ObjString = 1,
             hash = 3826002220, chars = [0x61, 0]\<rparr>;
        vm = (initial_VM :: int VM)\<lparr>heap := [0 \<mapsto> s], brk := 1\<rparr>
    in heap vm 0 = Some s
     \<and> tableFindString (heap vm) (strings vm) (chars s) (length_ObjString s) (hash s) = None
     \<and> validateString 0 vm =
          Inr (vm\<lparr>strings := [(0, NIL_VAL)], heap := [0 \<mapsto> s\<lparr>next := None\<rparr>],
                  objects := Some 0\<rparr>))"
  using validateString_miss_registers
    [where a = 0
       and s = "\<lparr>type_Obj = OBJ_STRING, next = Some 7, length_ObjString = 1,
                 hash = 3826002220, chars = [0x61, 0]\<rparr>"
       and vm = "(initial_VM :: int VM)\<lparr>heap := [0 \<mapsto>
                 \<lparr>type_Obj = OBJ_STRING, next = Some 7, length_ObjString = 1,
                  hash = 3826002220, chars = [0x61, 0]\<rparr>], brk := 1\<rparr>"]
  by (simp add: Let_def initial_VM_def tableFindString_def)


text \<open>
  \<^verbatim>\<open>hadError\<close> is never cleared: no helper and no parsing function resets it, and
  \<^verbatim>\<open>compile\<close> does not either. So a call of \<^verbatim>\<open>compile\<close> that starts with \<^verbatim>\<open>hadError\<close> set
  returns false, whatever the source.
\<close>

lemma and_then_Inr:
  assumes "and_then r f = Some (Inr g')"
  obtains g1 where "r = Some (Inr g1)" and "f g1 = Some (Inr g')"
  using assms by (auto simp: and_then_def split: option.splits sum.splits)

lemma hadError_advance: "hadError (parser (advance g)) = hadError (parser g)"
  by (cases "dropWhile (\<lambda>t. type t = TOKEN_ERROR) (pending (scanner g))")
     (simp_all add: advance_eq del: dropWhile_eq_Nil_conv)

lemma hadError_error: "hadError (parser g) \<Longrightarrow> hadError (parser (error m g))"
  by (simp add: error_def errorAt_def Let_def)

lemma hadError_emitByte: "hadError (parser (emitByte b g)) = hadError (parser g)"
  by (simp add: emitByte_def)

lemma hadError_consume: "hadError (parser (consume t m g)) = hadError (parser g)"
  by (simp add: consume_def errorAtCurrent_def hadError_advance)

lemma hadError_number: "hadError (parser g) \<Longrightarrow> hadError (parser (number env g))"
  by (simp add: number_def emitConstant_def makeConstant_def addConstant_def emitBytes_def
      hadError_emitByte hadError_error Let_def)

lemma hadError_literal: "hadError (parser (literal env g)) = hadError (parser g)"
  by (simp add: literal_def hadError_emitByte Let_def)

lemma hadError_binary_emit: "hadError (parser (binary_emit env t g)) = hadError (parser g)"
  by (simp add: binary_emit_def hadError_emitByte)

lemma hadError_unary_emit: "hadError (parser (unary_emit env t g)) = hadError (parser g)"
  by (simp add: unary_emit_def hadError_emitByte)

lemma hadError_run:
  "hadError (parser g) \<Longrightarrow> run n env r g = Some (Inr g') \<Longrightarrow> hadError (parser g')"
proof (induction n arbitrary: r g g')
  case 0
  then show ?case by (simp add: run.simps(1))
next
  case (Suc n)
  note IH = Suc.IH
  note h = Suc.prems(1)
  have ha: "hadError (parser (advance g))" using h by (simp add: hadError_advance)
  show ?case
  proof (cases r)
    case (ParsePrecedence prec)
    show ?thesis
    proof (cases "prefixRule (getRule (type (current (parser g))))")
      case None
      with Suc.prems(2) ha show ?thesis
        unfolding ParsePrecedence run_ParsePrecedence by (auto simp: hadError_error)
    next
      case (Some f)
      from Suc.prems(2) have
        "and_then (run n env (Call f) (advance g)) (run n env (ParsePrecedence_loop prec))
           = Some (Inr g')"
        unfolding ParsePrecedence run_ParsePrecedence by (simp add: Some)
      then obtain g1 where "run n env (Call f) (advance g) = Some (Inr g1)"
        and "run n env (ParsePrecedence_loop prec) g1 = Some (Inr g')"
        by (rule and_then_Inr)
      with ha show ?thesis by (blast intro: IH)
    qed
  next
    case (ParsePrecedence_loop prec)
    show ?thesis
    proof (cases "prec \<le> precedence (getRule (type (current (parser g))))")
      case False
      with Suc.prems show ?thesis
        unfolding ParsePrecedence_loop run_ParsePrecedence_loop by simp
    next
      case True
      show ?thesis
      proof (cases "infixRule (getRule (type (current (parser g))))")
        case None
        with Suc.prems(2) True show ?thesis
          unfolding ParsePrecedence_loop run_ParsePrecedence_loop by simp
      next
        case (Some f)
        from Suc.prems(2) have
          "and_then (run n env (Call f) (advance g)) (run n env (ParsePrecedence_loop prec))
             = Some (Inr g')"
          unfolding ParsePrecedence_loop run_ParsePrecedence_loop by (simp add: Some True)
        then obtain g1 where "run n env (Call f) (advance g) = Some (Inr g1)"
          and "run n env (ParsePrecedence_loop prec) g1 = Some (Inr g')"
          by (rule and_then_Inr)
        with ha show ?thesis by (blast intro: IH)
      qed
    qed
  next
    case (Call f)
    show ?thesis
    proof (cases f)
      case FN_binary
      from Suc.prems(2) obtain g1 where
        "run n env (ParsePrecedence (precedence (getRule (type (previous (parser g)))) + 1)) g
           = Some (Inr g1)"
        and "g' = binary_emit env (type (previous (parser g))) g1"
        unfolding Call FN_binary run_binary by (auto elim!: and_then_Inr)
      with h show ?thesis by (auto simp: hadError_binary_emit dest: IH)
    next
      case FN_unary
      from Suc.prems(2) obtain g1 where
        "run n env (ParsePrecedence PREC_UNARY) g = Some (Inr g1)"
        and "g' = unary_emit env (type (previous (parser g))) g1"
        unfolding Call FN_unary run_unary by (auto elim!: and_then_Inr)
      with h show ?thesis by (auto simp: hadError_unary_emit dest: IH)
    next
      case FN_literal
      with Suc.prems Call show ?thesis by (auto simp: run.simps hadError_literal)
    next
      case FN_number
      with Suc.prems Call show ?thesis by (auto simp: run.simps hadError_number)
    next
      case FN_grouping
      from Suc.prems(2) obtain g1 where
        "run n env Expression g = Some (Inr g1)"
        and "g' = consume TOKEN_RIGHT_PAREN ''Expected ')' after expression.'' g1"
        unfolding Call FN_grouping run_grouping by (auto elim!: and_then_Inr)
      with h show ?thesis by (auto simp: hadError_consume dest: IH)
    qed
  next
    case Expression
    with Suc.prems show ?thesis unfolding Expression run_Expression by (blast intro: IH)
  qed
qed

theorem compile_hadError_sticky:
  assumes "hadError (parser g)" and "compile n env src c g = Some (Inr (b, g'))"
  shows "\<not> b \<and> hadError (parser g')"
proof -
  let ?g1 = "advance (g\<lparr>scanner := src, compilingChunk := c\<rparr>)"
  have h1: "hadError (parser ?g1)" using assms(1) by (simp add: hadError_advance)
  from assms(2) obtain g2 where r: "run n env Expression ?g1 = Some (Inr g2)"
    and g': "g' = endCompiler env (consume TOKEN_EOF ''Expected end of expression.'' g2)"
    and b: "b = (\<not> hadError (parser g'))"
    by (auto simp: compile_def expression_def Let_def split: option.splits sum.splits)
  from h1 r have "hadError (parser g2)" by (rule hadError_run)
  then have "hadError (parser g')"
    by (simp add: g' endCompiler_def emitReturn_def hadError_emitByte hadError_consume)
  with b show ?thesis by simp
qed

theorem compile_hadError_sticky_witness:
  "\<forall>env :: int Env.
     hadError (parser ((initial_Globals :: int Globals)\<lparr>parser := zero_Parser\<lparr>hadError := True\<rparr>\<rparr>))
   \<and> (\<exists>g'. compile 3 env
         \<lparr>pending = [\<lparr>type = TOKEN_NUMBER, start = ''1'', length_Token = 1, line = 1\<rparr>],
          eof_line = 1\<rparr> empty_Chunk
         (initial_Globals\<lparr>parser := zero_Parser\<lparr>hadError := True\<rparr>\<rparr>) = Some (Inr (False, g'))
        \<and> hadError (parser g'))"
proof (intro allI conjI)
  fix env :: "int Env"
  let ?g = "(initial_Globals :: int Globals)\<lparr>parser := zero_Parser\<lparr>hadError := True\<rparr>\<rparr>"
  let ?src = "\<lparr>pending = [\<lparr>type = TOKEN_NUMBER, start = ''1'', length_Token = 1, line = 1\<rparr>],
          eof_line = 1\<rparr>"
  show h: "hadError (parser ?g)" by simp
  have "\<exists>g'. compile 3 env ?src empty_Chunk ?g = Some (Inr (False, g'))"
    by (simp add: compile_eval initial_Globals_eval)
  then obtain g' where r: "compile 3 env ?src empty_Chunk ?g = Some (Inr (False, g'))" ..
  from compile_hadError_sticky [OF h r] r
  show "\<exists>g'. compile 3 env ?src empty_Chunk ?g = Some (Inr (False, g')) \<and> hadError (parser g')"
    by auto
qed

end
